theory Spec2Isabelle
  imports Main
begin

section \<open>Road tile SVG generator (packages/tile-generator/generate.py)\<close>

text \<open>
  Python strings are modelled as \<^typ>\<open>string\<close> (lists of characters); every character
  the generator emits is ASCII. A triple-quoted template is written line by line and put
  together with the newline character, which gives the same text.
\<close>

subsection \<open>Python string primitives\<close>

definition NL :: char where
  "NL = CHR 0x0A"

text \<open>\<^verbatim>\<open>sep.join(xs)\<close>\<close>

fun join :: "string \<Rightarrow> string list \<Rightarrow> string" where
  "join sep [] = []"
| "join sep [x] = x"
| "join sep (x # y # ys) = x @ sep @ join sep (y # ys)"

text \<open>\<^verbatim>\<open>str(n)\<close> for an integer, which is also what an f-string and \<^verbatim>\<open>str.format\<close>
  produce for an integer field without a format specification.\<close>

fun digit_char :: "nat \<Rightarrow> char" where
  "digit_char n = ''0123456789'' ! n"

fun str_nat :: "nat \<Rightarrow> string" where
  "str_nat n = (if n < 10 then [digit_char n] else str_nat (n div 10) @ [digit_char (n mod 10)])"

declare str_nat.simps [simp del]

definition str_int :: "int \<Rightarrow> string" where
  "str_int i = (if i < 0 then CHR ''-'' # str_nat (nat (- i)) else str_nat (nat i))"

subsection \<open>Constants\<close>

definition TILE_SIZE :: int where
  "TILE_SIZE = 40"

definition GRID_STROKE :: string where
  "GRID_STROKE = ''#cccccc''"

text \<open>\<^verbatim>\<open>GRID_STROKE_WIDTH = 0.5\<close> is a float literal that is only ever interpolated into
  an f-string; the constant is modelled by the text Python prints for it.\<close>

definition GRID_STROKE_WIDTH :: string where
  "GRID_STROKE_WIDTH = ''0.5''"

definition ROAD_STROKE :: string where
  "ROAD_STROKE = ''#000000''"

definition ROAD_STROKE_WIDTH :: int where
  "ROAD_STROKE_WIDTH = 1"

definition PORT_MARKER_COLOR :: string where
  "PORT_MARKER_COLOR = ''#ff0000''"

definition PORT_MARKER_RADIUS :: int where
  "PORT_MARKER_RADIUS = 1"

subsection \<open>SVG templates\<close>

text \<open>\<^verbatim>\<open>SVG_HEADER.format(svg_id=svg_id, size=size)\<close>: the template with its fields
  filled in (\<open>sz\<close> is the field \<^verbatim>\<open>size\<close>). \<^verbatim>\<open>str.format\<close> inserts the
  arguments as they are.\<close>

definition SVG_HEADER :: "string \<Rightarrow> int \<Rightarrow> string" where
  \<open>SVG_HEADER svg_id sz = join [NL]
    [''<?xml version="1.0" encoding="UTF-8"?>'',
     ''<svg id="'' @ svg_id @ ''" xmlns="http://www.w3.org/2000/svg" width="'' @ str_int sz
       @ ''" height="'' @ str_int sz @ ''" viewBox="0 0 '' @ str_int sz @ '' ''
       @ str_int sz @ ''">'']\<close>

definition GRID_LINES :: string where
  \<open>GRID_LINES = join [NL]
    [''  <!-- Grid lines -->'',
     ''  <g stroke="'' @ GRID_STROKE @ ''" stroke-width="'' @ GRID_STROKE_WIDTH @ ''" fill="none">'',
     ''    <line x1="0" y1="0" x2="0" y2="40"/>'',
     ''    <line x1="10" y1="0" x2="10" y2="40"/>'',
     ''    <line x1="20" y1="0" x2="20" y2="40"/>'',
     ''    <line x1="30" y1="0" x2="30" y2="40"/>'',
     ''    <line x1="40" y1="0" x2="40" y2="40"/>'',
     ''    <line x1="0" y1="0" x2="40" y2="0"/>'',
     ''    <line x1="0" y1="10" x2="40" y2="10"/>'',
     ''    <line x1="0" y1="20" x2="40" y2="20"/>'',
     ''    <line x1="0" y1="30" x2="40" y2="30"/>'',
     ''    <line x1="0" y1="40" x2="40" y2="40"/>'',
     ''  </g>'']\<close>

definition PORT_MARKERS :: string where
  \<open>PORT_MARKERS = join [NL]
    [''  <!-- Port markers -->'',
     ''  <g fill="'' @ PORT_MARKER_COLOR @ ''">'',
     ''    <circle cx="10" cy="0" r="'' @ str_int PORT_MARKER_RADIUS @ ''"/>'',
     ''    <circle cx="20" cy="0" r="'' @ str_int PORT_MARKER_RADIUS @ ''"/>'',
     ''    <circle cx="30" cy="0" r="'' @ str_int PORT_MARKER_RADIUS @ ''"/>'',
     ''    <circle cx="40" cy="10" r="'' @ str_int PORT_MARKER_RADIUS @ ''"/>'',
     ''    <circle cx="40" cy="20" r="'' @ str_int PORT_MARKER_RADIUS @ ''"/>'',
     ''    <circle cx="40" cy="30" r="'' @ str_int PORT_MARKER_RADIUS @ ''"/>'',
     ''    <circle cx="10" cy="40" r="'' @ str_int PORT_MARKER_RADIUS @ ''"/>'',
     ''    <circle cx="20" cy="40" r="'' @ str_int PORT_MARKER_RADIUS @ ''"/>'',
     ''    <circle cx="30" cy="40" r="'' @ str_int PORT_MARKER_RADIUS @ ''"/>'',
     ''    <circle cx="0" cy="10" r="'' @ str_int PORT_MARKER_RADIUS @ ''"/>'',
     ''    <circle cx="0" cy="20" r="'' @ str_int PORT_MARKER_RADIUS @ ''"/>'',
     ''    <circle cx="0" cy="30" r="'' @ str_int PORT_MARKER_RADIUS @ ''"/>'',
     ''  </g>'']\<close>

definition SVG_FOOTER :: string where
  \<open>SVG_FOOTER = ''</svg>''\<close>

subsection \<open>Tile data and the tile table\<close>

record TileData =
  comment :: string
  outer_path :: string
  inner_path :: string

text \<open>The dictionary literal \<^verbatim>\<open>TILE_DEFINITIONS\<close>, as the list of its items in
  insertion order (the order in which \<^verbatim>\<open>.items()\<close> yields them).\<close>

definition TILE_DEFINITIONS :: "(string \<times> TileData) list" where
  "TILE_DEFINITIONS = [
  (''curve-12-12'',
    \<lparr>comment = ''Curve: Up(P12) -> Right(P12)'',
     outer_path = ''M 10 0 L 10 10 C 10 15, 15 20, 20 20 L 40 20'',
     inner_path = ''M 20 0 L 20 5 C 20 7.5, 22.5 10, 25 10 L 40 10''\<rparr>),
  (''curve-12-23'',
    \<lparr>comment = ''Curve: Up(P12) -> Right(P23)'',
     outer_path = ''M 10 0 L 10 20 C 10 25, 15 30, 20 30 L 40 30'',
     inner_path = ''M 20 0 L 20 10 C 20 15, 25 20, 30 20 L 40 20''\<rparr>),
  (''curve-23-12'',
    \<lparr>comment = ''Curve: Up(P23) -> Right(P12)'',
     outer_path = ''M 20 0 L 20 10 C 20 15, 25 20, 30 20 L 40 20'',
     inner_path = ''M 30 0 L 30 5 C 30 7.5, 32.5 10, 35 10 L 40 10''\<rparr>),
  (''curve-23-23'',
    \<lparr>comment = ''Curve: Up(P23) -> Right(P23)'',
     outer_path = ''M 20 0 L 20 20 C 20 25, 25 30, 30 30 L 40 30'',
     inner_path = ''M 30 0 L 30 15 C 30 17.5, 32.5 20, 35 20 L 40 20''\<rparr>),
  (''curve-ul-12-12'',
    \<lparr>comment = ''Curve: Up(P12) -> Left(P12)'',
     outer_path = ''M 10 0 L 10 10 C 10 15, 5 20, 0 20 L 0 20'',
     inner_path = ''M 20 0 L 20 5 C 20 7.5, 17.5 10, 15 10 L 0 10''\<rparr>),
  (''curve-ul-12-23'',
    \<lparr>comment = ''Curve: Up(P12) -> Left(P23)'',
     outer_path = ''M 10 0 L 10 20 C 10 25, 5 30, 0 30 L 0 30'',
     inner_path = ''M 20 0 L 20 10 C 20 15, 15 20, 10 20 L 0 20''\<rparr>),
  (''curve-ul-23-12'',
    \<lparr>comment = ''Curve: Up(P23) -> Left(P12)'',
     outer_path = ''M 20 0 L 20 20 C 20 25, 15 30, 10 30 L 0 30'',
     inner_path = ''M 30 0 L 30 15 C 30 17.5, 25 20, 20 20 L 0 20''\<rparr>),
  (''curve-ul-23-23'',
    \<lparr>comment = ''Curve: Up(P23) -> Left(P23)'',
     outer_path = ''M 20 0 L 20 20 C 20 25, 25 30, 30 30 L 0 30'',
     inner_path = ''M 30 0 L 30 15 C 30 17.5, 32.5 20, 35 20 L 0 20''\<rparr>),
  (''sharp-12-12'',
    \<lparr>comment = ''Sharp: Up(P12) -> Right(P12)'',
     outer_path = ''M 10 0 L 10 20 L 40 20'',
     inner_path = ''M 20 0 L 20 10 L 40 10''\<rparr>),
  (''sharp-12-23'',
    \<lparr>comment = ''Sharp: Up(P12) -> Right(P23)'',
     outer_path = ''M 10 0 L 10 30 L 40 30'',
     inner_path = ''M 20 0 L 20 20 L 40 20''\<rparr>),
  (''sharp-23-12'',
    \<lparr>comment = ''Sharp: Up(P23) -> Right(P12)'',
     outer_path = ''M 20 0 L 20 20 L 40 20'',
     inner_path = ''M 30 0 L 30 10 L 40 10''\<rparr>),
  (''sharp-23-23'',
    \<lparr>comment = ''Sharp: Up(P23) -> Right(P23)'',
     outer_path = ''M 20 0 L 20 30 L 40 30'',
     inner_path = ''M 30 0 L 30 20 L 40 20''\<rparr>),
  (''sharp-ul-12-12'',
    \<lparr>comment = ''Sharp: Up(P12) -> Left(P12)'',
     outer_path = ''M 10 0 L 10 20 L 0 20'',
     inner_path = ''M 20 0 L 20 10 L 0 10''\<rparr>),
  (''sharp-ul-12-23'',
    \<lparr>comment = ''Sharp: Up(P12) -> Left(P23)'',
     outer_path = ''M 10 0 L 10 30 L 0 30'',
     inner_path = ''M 20 0 L 20 20 L 0 20''\<rparr>),
  (''sharp-ul-23-12'',
    \<lparr>comment = ''Sharp: Up(P23) -> Left(P12)'',
     outer_path = ''M 20 0 L 20 30 L 0 30'',
     inner_path = ''M 30 0 L 30 10 L 0 10''\<rparr>),
  (''sharp-ul-23-23'',
    \<lparr>comment = ''Sharp: Up(P23) -> Left(P23)'',
     outer_path = ''M 20 0 L 20 30 L 0 30'',
     inner_path = ''M 30 0 L 30 20 L 0 20''\<rparr>),
  (''straight-v-11'',
    \<lparr>comment = ''Straight Vertical: Up(P12) -> Down(P12)'',
     outer_path = ''M 10 0 L 10 40'',
     inner_path = ''M 20 0 L 20 40''\<rparr>),
  (''straight-v-22'',
    \<lparr>comment = ''Straight Vertical: Up(P23) -> Down(P23)'',
     outer_path = ''M 20 0 L 20 40'',
     inner_path = ''M 30 0 L 30 40''\<rparr>),
  (''straight-v-12'',
    \<lparr>comment = ''Straight Vertical: Up(P12) -> Down(P23) (lane shift)'',
     outer_path = ''M 10 0 C 10 20, 20 20, 20 40'',
     inner_path = ''M 20 0 C 20 20, 30 20, 30 40''\<rparr>),
  (''straight-v-21'',
    \<lparr>comment = ''Straight Vertical: Up(P23) -> Down(P12) (lane shift)'',
     outer_path = ''M 20 0 C 20 20, 10 20, 10 40'',
     inner_path = ''M 30 0 C 30 20, 20 20, 20 40''\<rparr>),
  (''straight-h-44'',
    \<lparr>comment = ''Straight Horizontal: Left(P12) -> Right(P12)'',
     outer_path = ''M 0 10 L 40 10'',
     inner_path = ''M 0 20 L 40 20''\<rparr>),
  (''straight-h-88'',
    \<lparr>comment = ''Straight Horizontal: Left(P23) -> Right(P23)'',
     outer_path = ''M 0 20 L 40 20'',
     inner_path = ''M 0 30 L 40 30''\<rparr>),
  (''straight-h-48'',
    \<lparr>comment = ''Straight Horizontal: Left(P12) -> Right(P23) (lane shift)'',
     outer_path = ''M 0 10 C 20 10, 20 20, 40 20'',
     inner_path = ''M 0 20 C 20 20, 20 30, 40 30''\<rparr>),
  (''straight-h-84'',
    \<lparr>comment = ''Straight Horizontal: Left(P23) -> Right(P12) (lane shift)'',
     outer_path = ''M 0 20 C 20 20, 20 10, 40 10'',
     inner_path = ''M 0 30 C 20 30, 20 20, 40 20''\<rparr>)  ]"

subsection \<open>Marker definitions\<close>

definition START_MARKER :: string where
  \<open>START_MARKER = join [NL]
    [''  <!-- Start marker -->'',
     ''  <g transform="translate(20, 14)">'',
     ''    <rect x="-6" y="-6" width="1.5" height="16" fill="#555"/>'',
     ''    <path d="M -4.5 -6 v 8 L 6 -2 z" fill="#3498db"/>'',
     ''  </g>'',
     ''  <g transform="translate(20, 32)">'',
     ''    <text x="0" y="0" font-family="Arial, sans-serif" font-size="7" text-anchor="middle" font-weight="bold" fill="#3498db">START</text>'',
     ''  </g>'']\<close>

definition GOAL_MARKER :: string where
  \<open>GOAL_MARKER = join [NL]
    [''  <!-- Goal marker -->'',
     ''  <g transform="translate(20, 14)">'',
     ''    <circle cx="0" cy="0" r="8" fill="none" stroke="#e74c3c" stroke-width="1.5"/>'',
     ''    <circle cx="0" cy="0" r="4" fill="none" stroke="#e74c3c" stroke-width="1.5"/>'',
     ''    <circle cx="0" cy="0" r="1.5" fill="#e74c3c"/>'',
     ''  </g>'',
     ''  <g transform="translate(20, 32)">'',
     ''    <text x="0" y="0" font-family="Arial, sans-serif" font-size="7" text-anchor="middle" font-weight="bold" fill="#e74c3c">GOAL</text>'',
     ''  </g>'']\<close>

subsection \<open>SVG generation functions\<close>

definition road_group :: "TileData \<Rightarrow> string" where
  \<open>road_group tile = join [NL]
    [''  <!-- '' @ comment tile @ '' -->'',
     ''  <g stroke="'' @ ROAD_STROKE @ ''" stroke-width="'' @ str_int ROAD_STROKE_WIDTH @ ''" fill="none">'',
     ''    <path d="'' @ outer_path tile @ ''"/>'',
     ''    <path d="'' @ inner_path tile @ ''"/>'',
     ''  </g>'']\<close>

definition generate_road_svg :: "string \<Rightarrow> TileData \<Rightarrow> string" where
  "generate_road_svg svg_id tile = join [NL]
    [SVG_HEADER svg_id TILE_SIZE,
     GRID_LINES,
     [],
     road_group tile,
     [],
     PORT_MARKERS,
     SVG_FOOTER,
     []]"

definition generate_marker_svg :: "string \<Rightarrow> string \<Rightarrow> string" where
  "generate_marker_svg svg_id marker_content = join [NL]
    [SVG_HEADER svg_id TILE_SIZE,
     GRID_LINES,
     [],
     marker_content,
     SVG_FOOTER,
     []]"

subsection \<open>The file system and the console\<close>

text \<open>
  The generator's only effects are on the output directory and on standard output.
  A world holds the regular files of \<^verbatim>\<open>OUTPUT_DIR\<close> (file name to text; a directory that
  does not exist yet has no files), the texts handed to \<^verbatim>\<open>print\<close> so far, one entry per
  call, and what the operating system will allow: whether \<^verbatim>\<open>mkdir\<close> succeeds and which
  file names can be opened for writing. A refused operation raises \<^verbatim>\<open>OSError\<close>, which
  nothing in the program catches, so the run stops there.
\<close>

datatype error = OSError string

record world =
  files :: "string \<rightharpoonup> string"
  stdout :: "string list"
  can_mkdir :: bool
  can_write :: "string \<Rightarrow> bool"

definition print :: "string \<Rightarrow> world \<Rightarrow> world" where
  "print s w = w\<lparr>stdout := stdout w @ [s]\<rparr>"

definition write_svg :: "string \<Rightarrow> string \<Rightarrow> world \<Rightarrow> error + world" where
  "write_svg filename content w =
     (if can_write w filename
      then Inr (print (''  Generated: '' @ filename) (w\<lparr>files := (files w)(filename \<mapsto> content)\<rparr>))
      else Inl (OSError filename))"

text \<open>A \<^verbatim>\<open>for\<close> loop whose body may raise: the first error ends the loop.\<close>

fun for_each :: "('a \<Rightarrow> world \<Rightarrow> error + world) \<Rightarrow> 'a list \<Rightarrow> world \<Rightarrow> error + world" where
  "for_each body [] w = Inr w"
| "for_each body (x # xs) w =
     (case body x w of Inl e \<Rightarrow> Inl e | Inr w' \<Rightarrow> for_each body xs w')"

fun prints :: "string list \<Rightarrow> world \<Rightarrow> world" where
  "prints [] w = w"
| "prints (s # ss) w = prints ss (print s w)"

subsection \<open>Main generation\<close>

text \<open>\<^verbatim>\<open>main()\<close>; \<open>output_dir\<close> is the text of the path \<^verbatim>\<open>OUTPUT_DIR\<close>, which depends on
  where the script is installed.\<close>

definition main :: "string \<Rightarrow> world \<Rightarrow> error + world" where
  "main output_dir w0 =
     (if can_mkdir w0 then
        (let w1 = prints
               [replicate 60 CHR ''='',
                ''Road Tile SVG Generator'',
                replicate 60 CHR ''='',
                ''Output directory: '' @ output_dir,
                [],
                ''Generating road tiles...''] w0
         in case for_each (\<lambda>(tile_id, tile).
                    write_svg (tile_id @ ''.svg'') (generate_road_svg tile_id tile))
                  TILE_DEFINITIONS w1 of
              Inl e \<Rightarrow> Inl e
            | Inr w2 \<Rightarrow>
         (case write_svg ''start.svg'' (generate_marker_svg ''start'' START_MARKER)
                 (print (NL # ''Generating marker tiles...'') w2) of
              Inl e \<Rightarrow> Inl e
            | Inr w3 \<Rightarrow>
         (case write_svg ''goal.svg'' (generate_marker_svg ''goal'' GOAL_MARKER) w3 of
              Inl e \<Rightarrow> Inl e
            | Inr w4 \<Rightarrow>
         (let total_files = int (length TILE_DEFINITIONS) + 2
          in Inr (prints
               [[],
                replicate 60 CHR ''='',
                ''Generation complete! '' @ str_int total_files @ '' SVG files created.'',
                replicate 60 CHR ''='',
                [],
                ''Generated files:'',
                ''  Curve (Up->Right):     curve-12-12, curve-12-23, curve-23-12, curve-23-23'',
                ''  Curve (Up->Left):      curve-ul-12-12, curve-ul-12-23, curve-ul-23-12, curve-ul-23-23'',
                ''  Sharp (Up->Right):     sharp-12-12, sharp-12-23, sharp-23-12, sharp-23-23'',
                ''  Sharp (Up->Left):      sharp-ul-12-12, sharp-ul-12-23, sharp-ul-23-12, sharp-ul-23-23'',
                ''  Straight (Vertical):   straight-v-11, straight-v-12, straight-v-21, straight-v-22'',
                ''  Straight (Horizontal): straight-h-44, straight-h-48, straight-h-84, straight-h-88'',
                ''  Markers:               start, goal''] w4)))))
      else Inl (OSError output_dir))"

subsection \<open>Reading a document\<close>

text \<open>
  The properties below are about the elements and attributes of the generated text.
  They are read off the text by three small scanners: \<open>starts_with s p\<close> is
  \<^verbatim>\<open>s.startswith(p)\<close>, \<open>count_sub p s\<close> is the number of positions of \<open>s\<close> at which \<open>p\<close>
  occurs, and \<open>attr_values p s\<close> lists, for every occurrence of \<open>p\<close> (an element name with
  an attribute name, up to the opening quote), the text up to the closing quote.
\<close>

fun starts_with :: "string \<Rightarrow> string \<Rightarrow> bool" where
  "starts_with s [] = True"
| "starts_with [] (p # ps) = False"
| "starts_with (c # cs) (p # ps) = (c = p \<and> starts_with cs ps)"

fun count_sub :: "string \<Rightarrow> string \<Rightarrow> nat" where
  "count_sub p [] = 0"
| "count_sub p (c # cs) =
     (if starts_with (c # cs) p then Suc (count_sub p cs) else count_sub p cs)"

fun attr_values :: "string \<Rightarrow> string \<Rightarrow> string list" where
  "attr_values p [] = []"
| "attr_values p (c # cs) =
     (if starts_with (c # cs) p
      then takeWhile (\<lambda>x. x \<noteq> CHR 0x22) (drop (length p) (c # cs)) # attr_values p cs
      else attr_values p cs)"

definition ends_with :: "string \<Rightarrow> string \<Rightarrow> bool" where
  "ends_with s p = starts_with (rev s) (rev p)"

text \<open>\<open>quoted_after p s\<close>: every occurrence of \<open>p\<close> in \<open>s\<close> has its closing quote in \<open>s\<close>.\<close>

fun quoted_after :: "string \<Rightarrow> string \<Rightarrow> bool" where
  "quoted_after p [] = True"
| "quoted_after p (c # cs) =
     (if starts_with (c # cs) p
      then CHR 0x22 \<in> set (drop (length p) (c # cs)) \<and> quoted_after p cs
      else quoted_after p cs)"

text \<open>A text is \<open>plain\<close> when it has no angle bracket that opens a tag, no double quote
  and no newline. Every identifier and every field of the tile table is.\<close>

definition plain :: "string \<Rightarrow> bool" where
  "plain s = (CHR ''<'' \<notin> set s \<and> CHR 0x22 \<notin> set s \<and> NL \<notin> set s)"

text \<open>The file name without its \<^verbatim>\<open>.svg\<close> extension.\<close>

definition stem :: "string \<Rightarrow> string" where
  "stem filename =
     (if ends_with filename ''.svg'' then take (length filename - 4) filename else filename)"

subsection \<open>What a run writes\<close>

text \<open>The file names and documents handed to \<^verbatim>\<open>write_svg\<close> by \<^verbatim>\<open>main\<close>, in the order of
  the calls: one per item of the tile table, then the two markers.\<close>

definition road_documents :: "(string \<times> string) list" where
  "road_documents =
     map (\<lambda>(tile_id, tile). (tile_id @ ''.svg'', generate_road_svg tile_id tile)) TILE_DEFINITIONS"

definition marker_documents :: "(string \<times> string) list" where
  "marker_documents =
     [(''start.svg'', generate_marker_svg ''start'' START_MARKER),
      (''goal.svg'', generate_marker_svg ''goal'' GOAL_MARKER)]"

definition documents :: "(string \<times> string) list" where
  "documents = road_documents @ marker_documents"

text \<open>The centres of the circles of \<^verbatim>\<open>PORT_MARKERS\<close>, in the order of the template.\<close>

definition port_positions :: "(int \<times> int) list" where
  "port_positions =
     [(10, 0), (20, 0), (30, 0), (40, 10), (40, 20), (40, 30),
      (10, 40), (20, 40), (30, 40), (0, 10), (0, 20), (0, 30)]"

definition file_names :: "string list" where
  "file_names = map fst documents"

text \<open>A world in which nothing is refused, with an empty output directory.\<close>

definition fresh_world :: world where
  "fresh_world = \<lparr>files = Map.empty, stdout = [], can_mkdir = True, can_write = (\<lambda>f. True)\<rparr>"

section \<open>Properties\<close>

subsection \<open>Scanning across lines\<close>

lemma starts_with_append_self: "starts_with (p @ r) p"
  by (induction p) auto

lemma starts_with_before:
  "c \<notin> set p \<Longrightarrow> starts_with (xs @ c # ys) p = starts_with xs p"
proof (induction xs arbitrary: p)
  case Nil
  then show ?case by (cases p) auto
next
  case (Cons x xs)
  then show ?case by (cases p) auto
qed

lemma count_sub_split:
  "c \<notin> set p \<Longrightarrow> p \<noteq> [] \<Longrightarrow> count_sub p (xs @ c # ys) = count_sub p xs + count_sub p ys"
proof (induction xs)
  case Nil
  then show ?case by (cases p) auto
next
  case (Cons x xs)
  have "starts_with ((x # xs) @ c # ys) p = starts_with (x # xs) p"
    using Cons.prems(1) by (rule starts_with_before)
  with Cons show ?case by simp
qed

lemma count_sub_join:
  "NL \<notin> set p \<Longrightarrow> p \<noteq> [] \<Longrightarrow> count_sub p (join [NL] ls) = sum_list (map (count_sub p) ls)"
proof (induction "[NL]" ls rule: join.induct)
  case 1 then show ?case by simp
next
  case (2 x) then show ?case by simp
next
  case (3 x y ys)
  then show ?case by (simp add: count_sub_split)
qed

lemma count_sub_skip:
  "p \<noteq> [] \<Longrightarrow> hd p \<notin> set xs \<Longrightarrow> count_sub p (xs @ ys) = count_sub p ys"
  by (induction xs) (cases p; auto)+


lemma attr_values_skip:
  "p \<noteq> [] \<Longrightarrow> hd p \<notin> set xs \<Longrightarrow> attr_values p (xs @ ys) = attr_values p ys"
  by (induction xs) (cases p; auto)+

lemma attr_values_none: "count_sub p xs = 0 \<Longrightarrow> attr_values p xs = []"
  by (induction xs) (auto split: if_splits)

lemma takeWhile_quote:
  "c \<notin> set xs \<Longrightarrow> takeWhile (\<lambda>x. x \<noteq> c) (xs @ c # ys) = xs"
  by (induction xs) auto

lemma starts_with_length: "starts_with s p \<Longrightarrow> length p \<le> length s"
  by (induction s p rule: starts_with.induct) auto

lemma attr_values_split:
  "c \<notin> set p \<Longrightarrow> p \<noteq> [] \<Longrightarrow> quoted_after p xs \<Longrightarrow>
   attr_values p (xs @ c # ys) = attr_values p xs @ attr_values p ys"
proof (induction xs)
  case Nil
  then show ?case by (cases p) auto
next
  case (Cons x xs)
  have sw: "starts_with ((x # xs) @ c # ys) p = starts_with (x # xs) p"
    using Cons.prems(1) by (rule starts_with_before)
  have q: "quoted_after p xs" using Cons.prems(3) by (simp split: if_splits)
  show ?case
  proof (cases "starts_with (x # xs) p")
    case True
    then have len: "length p \<le> length (x # xs)" by (rule starts_with_length)
    from True Cons.prems(3) have "CHR 0x22 \<in> set (drop (length p) (x # xs))" by simp
    then have "takeWhile (\<lambda>x. x \<noteq> CHR 0x22) (drop (length p) (x # xs) @ c # ys)
        = takeWhile (\<lambda>x. x \<noteq> CHR 0x22) (drop (length p) (x # xs))"
      by (intro takeWhile_append1[where x = "CHR 0x22"]) auto
    moreover have "drop (length p) ((x # xs) @ c # ys) = drop (length p) (x # xs) @ c # ys"
    proof -
      have "length p - length (x # xs) = 0" using len by simp
      then show ?thesis unfolding drop_append by simp
    qed
    ultimately show ?thesis using True sw Cons.IH[OF Cons.prems(1,2) q] by simp
  next
    case False
    then show ?thesis using sw Cons.IH[OF Cons.prems(1,2) q] by simp
  qed
qed

lemma quoted_after_none: "count_sub p xs = 0 \<Longrightarrow> quoted_after p xs"
  by (induction xs) (auto split: if_splits)

lemma quoted_after_skip:
  "p \<noteq> [] \<Longrightarrow> hd p \<notin> set xs \<Longrightarrow> quoted_after p (xs @ ys) = quoted_after p ys"
  by (induction xs) (cases p; auto)+

lemma attr_values_join:
  "NL \<notin> set p \<Longrightarrow> p \<noteq> [] \<Longrightarrow> list_all (quoted_after p) ls \<Longrightarrow>
   attr_values p (join [NL] ls) = concat (map (attr_values p) ls)"
proof (induction "[NL]" ls rule: join.induct)
  case 1 then show ?case by simp
next
  case (2 x) then show ?case by simp
next
  case (3 x y ys)
  then show ?case by (simp add: attr_values_split)
qed


lemma ends_with_append_self: "ends_with (r @ p) p"
  by (simp add: ends_with_def starts_with_append_self)

lemma stem_svg: "stem (k @ ''.svg'') = k"
proof -
  have "ends_with (k @ ''.svg'') ''.svg''" by (rule ends_with_append_self)
  then show ?thesis by (simp add: stem_def)
qed

lemma str_int_1: "str_int 1 = ''1''"
  by (simp add: str_int_def str_nat.simps)

lemma str_int_40: "str_int 40 = ''40''"
  by (simp add: str_int_def str_nat.simps)

subsection \<open>A run of main\<close>

lemma prints_eq: "prints ss w = w\<lparr>stdout := stdout w @ ss\<rparr>"
  by (induction ss arbitrary: w) (simp_all add: print_def)

lemma write_svg_Inr:
  "write_svg f c w = Inr w' \<longleftrightarrow>
     can_write w f \<and> w' = w\<lparr>files := (files w)(f \<mapsto> c), stdout := stdout w @ [''  Generated: '' @ f]\<rparr>"
  by (auto simp: write_svg_def print_def)

lemma for_each_map: "for_each body (map h xs) w = for_each (\<lambda>x. body (h x)) xs w"
  by (induction xs arbitrary: w) (simp_all split: sum.splits)

lemma write_all_Inr:
  "for_each (\<lambda>(f, c). write_svg f c) xs w = Inr w' \<Longrightarrow>
     w' = w\<lparr>files := files w ++ map_of (rev xs),
            stdout := stdout w @ map (\<lambda>(f, c). ''  Generated: '' @ f) xs\<rparr>"
proof (induction xs arbitrary: w)
  case Nil
  then show ?case by simp
next
  case (Cons x xs)
  obtain f c where x: "x = (f, c)" by (cases x)
  have "\<exists>w1. write_svg f c w = Inr w1 \<and> for_each (\<lambda>(f, c). write_svg f c) xs w1 = Inr w'"
    using Cons.prems unfolding x by (cases "write_svg f c w") simp_all
  then obtain w1 where w1: "write_svg f c w = Inr w1"
    and rest: "for_each (\<lambda>(f, c). write_svg f c) xs w1 = Inr w'"
    by blast
  from w1 have w1_eq: "w1 = w\<lparr>files := (files w)(f \<mapsto> c), stdout := stdout w @ [''  Generated: '' @ f]\<rparr>"
    by (simp only: write_svg_Inr)
  have m: "files w ++ map_of (rev (x # xs)) = (files w)(f \<mapsto> c) ++ map_of (rev xs)"
    unfolding x by (simp add: map_of_append)
  have "w' = w1\<lparr>files := files w1 ++ map_of (rev xs),
            stdout := stdout w1 @ map (\<lambda>(f, c). ''  Generated: '' @ f) xs\<rparr>"
    using rest by (rule Cons.IH)
  then show ?case
    unfolding m unfolding w1_eq x by simp
qed


lemma write_all_ok:
  "list_all (\<lambda>(f, c). can_write w f) xs \<Longrightarrow> \<exists>w'. for_each (\<lambda>(f, c). write_svg f c) xs w = Inr w'"
proof (induction xs arbitrary: w)
  case Nil
  then show ?case by simp
next
  case (Cons x xs)
  obtain f c where x: "x = (f, c)" by (cases x)
  let ?w1 = "w\<lparr>files := (files w)(f \<mapsto> c), stdout := stdout w @ [''  Generated: '' @ f]\<rparr>"
  from Cons.prems x have w1: "write_svg f c w = Inr ?w1"
    by (simp add: write_svg_Inr)
  from Cons.prems have "list_all (\<lambda>(f, c). can_write ?w1 f) xs" by simp
  then have "\<exists>w'. for_each (\<lambda>(f, c). write_svg f c) xs ?w1 = Inr w'" by (rule Cons.IH)
  then show ?case unfolding x by (simp add: w1)
qed

lemma road_loop:
  "for_each (\<lambda>(tile_id, tile). write_svg (tile_id @ ''.svg'') (generate_road_svg tile_id tile))
     TILE_DEFINITIONS w = for_each (\<lambda>(f, c). write_svg f c) road_documents w"
  unfolding road_documents_def for_each_map by (simp add: case_prod_unfold)


lemma length_TILE_DEFINITIONS: "length TILE_DEFINITIONS = 24"
  by (simp add: TILE_DEFINITIONS_def)

lemma str_int_26: "str_int 26 = ''26''"
  by (simp add: str_int_def str_nat.simps)

lemma main_Inr:
  assumes "main d w0 = Inr w"
  shows "w = w0\<lparr>files := files w0 ++ map_of (rev documents),
          stdout := stdout w0
            @ [replicate 60 CHR ''='', ''Road Tile SVG Generator'', replicate 60 CHR ''='',
               ''Output directory: '' @ d, [], ''Generating road tiles...'']
            @ map (\<lambda>(f, c). ''  Generated: '' @ f) road_documents
            @ [NL # ''Generating marker tiles...'']
            @ map (\<lambda>(f, c). ''  Generated: '' @ f) marker_documents
            @ [[], replicate 60 CHR ''='', ''Generation complete! 26 SVG files created.'',
               replicate 60 CHR ''='', [], ''Generated files:'',
               ''  Curve (Up->Right):     curve-12-12, curve-12-23, curve-23-12, curve-23-23'',
               ''  Curve (Up->Left):      curve-ul-12-12, curve-ul-12-23, curve-ul-23-12, curve-ul-23-23'',
               ''  Sharp (Up->Right):     sharp-12-12, sharp-12-23, sharp-23-12, sharp-23-23'',
               ''  Sharp (Up->Left):      sharp-ul-12-12, sharp-ul-12-23, sharp-ul-23-12, sharp-ul-23-23'',
               ''  Straight (Vertical):   straight-v-11, straight-v-12, straight-v-21, straight-v-22'',
               ''  Straight (Horizontal): straight-h-44, straight-h-48, straight-h-84, straight-h-88'',
               ''  Markers:               start, goal'']\<rparr>"
proof -
  let ?w1 = "prints [replicate 60 CHR ''='', ''Road Tile SVG Generator'', replicate 60 CHR ''='',
                ''Output directory: '' @ d, [], ''Generating road tiles...''] w0"
  have mk: "can_mkdir w0"
    using assms unfolding main_def by (cases "can_mkdir w0") simp_all
  obtain w2 where l: "for_each (\<lambda>(f, c). write_svg f c) road_documents ?w1 = Inr w2"
    using assms mk unfolding main_def Let_def road_loop
    by (cases "for_each (\<lambda>(f, c). write_svg f c) road_documents ?w1") simp_all
  let ?s = "write_svg ''start.svg'' (generate_marker_svg ''start'' START_MARKER)
          (print (NL # ''Generating marker tiles...'') w2)"
  obtain w3 where s: "?s = Inr w3"
    using assms mk l unfolding main_def Let_def road_loop
    by (cases ?s) simp_all
  let ?g = "write_svg ''goal.svg'' (generate_marker_svg ''goal'' GOAL_MARKER) w3"
  obtain w4 where g: "?g = Inr w4"
    using assms mk l s unfolding main_def Let_def road_loop
    by (cases ?g) simp_all
  have w: "w = prints
               [[],
                replicate 60 CHR ''='',
                ''Generation complete! '' @ str_int (int (length TILE_DEFINITIONS) + 2) @ '' SVG files created.'',
                replicate 60 CHR ''='',
                [],
                ''Generated files:'',
                ''  Curve (Up->Right):     curve-12-12, curve-12-23, curve-23-12, curve-23-23'',
                ''  Curve (Up->Left):      curve-ul-12-12, curve-ul-12-23, curve-ul-23-12, curve-ul-23-23'',
                ''  Sharp (Up->Right):     sharp-12-12, sharp-12-23, sharp-23-12, sharp-23-23'',
                ''  Sharp (Up->Left):      sharp-ul-12-12, sharp-ul-12-23, sharp-ul-23-12, sharp-ul-23-23'',
                ''  Straight (Vertical):   straight-v-11, straight-v-12, straight-v-21, straight-v-22'',
                ''  Straight (Horizontal): straight-h-44, straight-h-48, straight-h-84, straight-h-88'',
                ''  Markers:               start, goal''] w4"
    using assms mk l s g unfolding main_def Let_def road_loop by simp
  have w2: "w2 = ?w1\<lparr>files := files ?w1 ++ map_of (rev road_documents),
            stdout := stdout ?w1 @ map (\<lambda>(f, c). ''  Generated: '' @ f) road_documents\<rparr>"
    using l by (rule write_all_Inr)
  have w3: "w3 = w2\<lparr>files := (files w2)(''start.svg'' \<mapsto> generate_marker_svg ''start'' START_MARKER),
            stdout := stdout w2 @ [NL # ''Generating marker tiles...'', ''  Generated: start.svg'']\<rparr>"
    using s by (simp add: write_svg_Inr print_def)
  have w4: "w4 = w3\<lparr>files := (files w3)(''goal.svg'' \<mapsto> generate_marker_svg ''goal'' GOAL_MARKER),
            stdout := stdout w3 @ [''  Generated: goal.svg'']\<rparr>"
    using g by (simp add: write_svg_Inr)
  have f: "files w0 ++ map_of (rev documents) =
      (files w0 ++ map_of (rev road_documents))
        (''start.svg'' \<mapsto> generate_marker_svg ''start'' START_MARKER,
         ''goal.svg'' \<mapsto> generate_marker_svg ''goal'' GOAL_MARKER)"
    by (simp add: documents_def marker_documents_def map_of_append)
  have n: "str_int (int (length TILE_DEFINITIONS) + 2) = ''26''"
    by (simp add: length_TILE_DEFINITIONS str_int_26)
  show ?thesis
    unfolding f w n w4 w3 w2 prints_eq by (simp add: marker_documents_def)
qed


lemma main_ok:
  assumes "can_mkdir w0" and "list_all (can_write w0) file_names"
  shows "\<exists>w. main d w0 = Inr w"
proof -
  let ?w1 = "prints [replicate 60 CHR ''='', ''Road Tile SVG Generator'', replicate 60 CHR ''='',
                ''Output directory: '' @ d, [], ''Generating road tiles...''] w0"
  have all: "list_all (\<lambda>(f, c). can_write w0 f) documents"
    using assms(2) by (simp add: file_names_def list_all_iff case_prod_unfold)
  then have "list_all (\<lambda>(f, c). can_write ?w1 f) road_documents"
    by (simp add: documents_def prints_eq)
  then obtain w2 where l: "for_each (\<lambda>(f, c). write_svg f c) road_documents ?w1 = Inr w2"
    using write_all_ok by blast
  have cw2: "can_write w2 = can_write w0"
    using write_all_Inr[OF l] by (simp add: prints_eq)
  from all have s: "can_write w0 ''start.svg''" and g: "can_write w0 ''goal.svg''"
    by (simp_all add: documents_def marker_documents_def)
  show ?thesis
    unfolding main_def Let_def road_loop l
    using assms(1) s g by (simp add: write_svg_def print_def cw2)
qed

lemma file_names_eq:
  "file_names = map (\<lambda>(tile_id, tile). tile_id @ ''.svg'') TILE_DEFINITIONS @ [''start.svg'', ''goal.svg'']"
  by (simp add: file_names_def documents_def road_documents_def marker_documents_def case_prod_unfold)

lemma file_names_list:
  "file_names =
    [''curve-12-12.svg'', ''curve-12-23.svg'', ''curve-23-12.svg'', ''curve-23-23.svg'',
     ''curve-ul-12-12.svg'', ''curve-ul-12-23.svg'', ''curve-ul-23-12.svg'', ''curve-ul-23-23.svg'',
     ''sharp-12-12.svg'', ''sharp-12-23.svg'', ''sharp-23-12.svg'', ''sharp-23-23.svg'',
     ''sharp-ul-12-12.svg'', ''sharp-ul-12-23.svg'', ''sharp-ul-23-12.svg'', ''sharp-ul-23-23.svg'',
     ''straight-v-11.svg'', ''straight-v-22.svg'', ''straight-v-12.svg'', ''straight-v-21.svg'',
     ''straight-h-44.svg'', ''straight-h-88.svg'', ''straight-h-48.svg'', ''straight-h-84.svg'',
     ''start.svg'', ''goal.svg'']"
  unfolding file_names_eq by (simp add: TILE_DEFINITIONS_def)

lemma distinct_file_names: "distinct file_names"
  unfolding file_names_list by code_simp

lemma distinct_tile_ids: "distinct (map fst TILE_DEFINITIONS)"
  by code_simp

lemma length_file_names: "length file_names = 26"
  unfolding file_names_list by simp

lemma main_file_lookup:
  assumes "main d w0 = Inr w" and "(f, doc) \<in> set documents"
  shows "files w f = Some doc"
proof -
  have "distinct (map fst (rev documents))"
    using distinct_file_names by (simp add: file_names_def rev_map[symmetric])
  moreover have "(f, doc) \<in> set (rev documents)" using assms(2) by simp
  ultimately have "map_of (rev documents) f = Some doc" by (rule map_of_is_SomeI)
  then show ?thesis unfolding main_Inr[OF assms(1)] by simp
qed


subsection \<open>The shape of a document\<close>

lemma road_svg_parts:
  "generate_road_svg svg_id tile =
     SVG_HEADER svg_id TILE_SIZE @ [NL] @ GRID_LINES @ [NL, NL] @ road_group tile @ [NL, NL]
       @ PORT_MARKERS @ [NL] @ SVG_FOOTER @ [NL]"
  by (simp add: generate_road_svg_def)

lemma marker_svg_parts:
  "generate_marker_svg svg_id marker_content =
     SVG_HEADER svg_id TILE_SIZE @ [NL] @ GRID_LINES @ [NL, NL] @ marker_content @ [NL]
       @ SVG_FOOTER @ [NL]"
  by (simp add: generate_marker_svg_def)

lemma filter_generated:
  "filter (\<lambda>l. starts_with l p) (map (\<lambda>(f, c). p @ f) xs) = map (\<lambda>(f, c). p @ f) xs"
  by (induction xs) (auto simp: starts_with_append_self)

lemma fresh_world_ok: "can_mkdir fresh_world \<and> list_all (can_write fresh_world) file_names"
  by (simp add: fresh_world_def list_all_iff)


lemma file_names_document:
  assumes "f \<in> set file_names"
  shows "\<exists>doc. (f, doc) \<in> set documents"
  using assms by (auto simp: file_names_def)


subsection \<open>Counting elements and reading attributes\<close>

lemma plain_simps:
  "plain s \<Longrightarrow> CHR ''<'' \<notin> set s" "plain s \<Longrightarrow> CHR 0x22 \<notin> set s" "plain s \<Longrightarrow> NL \<notin> set s"
  by (simp_all add: plain_def)

lemma header_counts:
  assumes "plain i"
  shows "count_sub ''<line '' (SVG_HEADER i TILE_SIZE) = 0"
    and "count_sub ''<path '' (SVG_HEADER i TILE_SIZE) = 0"
    and "count_sub ''<circle '' (SVG_HEADER i TILE_SIZE) = 0"
    and "count_sub ''<path d=\"'' (SVG_HEADER i TILE_SIZE) = 0"
  using plain_simps(1)[OF assms]
  by (simp_all add: SVG_HEADER_def TILE_SIZE_def str_int_40 count_sub_join NL_def count_sub_skip)

lemma header_id:
  assumes "plain i"
  shows "attr_values ''<svg id=\"'' (SVG_HEADER i TILE_SIZE) = [i]"
    and "quoted_after ''<svg id=\"'' (SVG_HEADER i TILE_SIZE)"
  using plain_simps(1,2)[OF assms]
  by (simp_all add: SVG_HEADER_def TILE_SIZE_def str_int_40 attr_values_join NL_def
      attr_values_skip quoted_after_skip takeWhile_quote)

lemma road_group_counts:
  assumes "plain (comment t)" and "plain (outer_path t)" and "plain (inner_path t)"
  shows "count_sub ''<line '' (road_group t) = 0"
    and "count_sub ''<path '' (road_group t) = 2"
    and "count_sub ''<circle '' (road_group t) = 0"
    and "count_sub ''<svg id=\"'' (road_group t) = 0"
  using plain_simps(1)[OF assms(1)] plain_simps(1)[OF assms(2)] plain_simps(1)[OF assms(3)]
  by (simp_all add: road_group_def ROAD_STROKE_def ROAD_STROKE_WIDTH_def str_int_1
      count_sub_join NL_def count_sub_skip)

lemma road_group_paths:
  assumes "plain (comment t)" and "plain (outer_path t)" and "plain (inner_path t)"
  shows "attr_values ''<path d=\"'' (road_group t) = [outer_path t, inner_path t]"
    and "quoted_after ''<path d=\"'' (road_group t)"
  using plain_simps(1)[OF assms(1)] plain_simps(1,2)[OF assms(2)] plain_simps(1,2)[OF assms(3)]
  by (simp_all add: road_group_def ROAD_STROKE_def ROAD_STROKE_WIDTH_def str_int_1
      attr_values_join NL_def attr_values_skip quoted_after_skip takeWhile_quote)

lemma road_svg_count:
  "NL \<notin> set p \<Longrightarrow> p \<noteq> [] \<Longrightarrow>
   count_sub p (generate_road_svg i t) =
     count_sub p (SVG_HEADER i TILE_SIZE) + count_sub p GRID_LINES + count_sub p (road_group t)
       + count_sub p PORT_MARKERS + count_sub p SVG_FOOTER"
  unfolding generate_road_svg_def by (subst count_sub_join) simp_all

lemma marker_svg_count:
  "NL \<notin> set p \<Longrightarrow> p \<noteq> [] \<Longrightarrow>
   count_sub p (generate_marker_svg i c) =
     count_sub p (SVG_HEADER i TILE_SIZE) + count_sub p GRID_LINES + count_sub p c
       + count_sub p SVG_FOOTER"
  unfolding generate_marker_svg_def by (subst count_sub_join) simp_all

lemma grid_counts:
  "count_sub ''<line '' GRID_LINES = 10"
  "count_sub ''<path '' GRID_LINES = 0"
  "count_sub ''<circle '' GRID_LINES = 0"
  "count_sub ''<svg id=\"'' GRID_LINES = 0"
  "count_sub ''<path d=\"'' GRID_LINES = 0"
  "count_sub (''r=\"'' @ str_int PORT_MARKER_RADIUS @ ''\"'') GRID_LINES = 0"
  "count_sub PORT_MARKER_COLOR GRID_LINES = 0"
  unfolding GRID_LINES_def by (subst count_sub_join; code_simp)+

lemma port_counts:
  "count_sub ''<line '' PORT_MARKERS = 0"
  "count_sub ''<path '' PORT_MARKERS = 0"
  "count_sub ''<circle '' PORT_MARKERS = 12"
  "count_sub ''<svg id=\"'' PORT_MARKERS = 0"
  "count_sub ''<path d=\"'' PORT_MARKERS = 0"
  "count_sub (''r=\"'' @ str_int PORT_MARKER_RADIUS @ ''\"'') PORT_MARKERS = 12"
  "count_sub PORT_MARKER_COLOR PORT_MARKERS = 1"
  unfolding PORT_MARKERS_def by (subst count_sub_join; code_simp)+

lemma footer_counts:
  "count_sub ''<line '' SVG_FOOTER = 0"
  "count_sub ''<path '' SVG_FOOTER = 0"
  "count_sub ''<circle '' SVG_FOOTER = 0"
  "count_sub ''<svg id=\"'' SVG_FOOTER = 0"
  "count_sub ''<path d=\"'' SVG_FOOTER = 0"
  "count_sub (''r=\"'' @ str_int PORT_MARKER_RADIUS @ ''\"'') SVG_FOOTER = 0"
  "count_sub PORT_MARKER_COLOR SVG_FOOTER = 0"
  by code_simp+

lemma start_counts:
  "count_sub ''<line '' START_MARKER = 0"
  "count_sub ''<circle '' START_MARKER = 0"
  "count_sub ''<svg id=\"'' START_MARKER = 0"
  "count_sub (''r=\"'' @ str_int PORT_MARKER_RADIUS @ ''\"'') START_MARKER = 0"
  "count_sub PORT_MARKER_COLOR START_MARKER = 0"
  unfolding START_MARKER_def by (subst count_sub_join; code_simp)+

lemma goal_counts:
  "count_sub ''<line '' GOAL_MARKER = 0"
  "count_sub ''<circle '' GOAL_MARKER = 3"
  "count_sub ''<svg id=\"'' GOAL_MARKER = 0"
  "count_sub (''r=\"'' @ str_int PORT_MARKER_RADIUS @ ''\"'') GOAL_MARKER = 0"
  "count_sub PORT_MARKER_COLOR GOAL_MARKER = 0"
  unfolding GOAL_MARKER_def by (subst count_sub_join; code_simp)+

lemma marker_header_counts:
  "count_sub (''r=\"'' @ str_int PORT_MARKER_RADIUS @ ''\"'') (SVG_HEADER ''start'' TILE_SIZE) = 0"
  "count_sub PORT_MARKER_COLOR (SVG_HEADER ''start'' TILE_SIZE) = 0"
  "count_sub (''r=\"'' @ str_int PORT_MARKER_RADIUS @ ''\"'') (SVG_HEADER ''goal'' TILE_SIZE) = 0"
  "count_sub PORT_MARKER_COLOR (SVG_HEADER ''goal'' TILE_SIZE) = 0"
  unfolding SVG_HEADER_def by (subst count_sub_join; code_simp)+

lemma needle_facts:
  "NL \<notin> set ''<line ''" "NL \<notin> set ''<path ''" "NL \<notin> set ''<circle ''"
  "NL \<notin> set ''<svg id=\"''" "NL \<notin> set ''<path d=\"''"
  "NL \<notin> set (''r=\"'' @ str_int PORT_MARKER_RADIUS @ ''\"'')" "NL \<notin> set PORT_MARKER_COLOR"
  "''r=\"'' @ str_int PORT_MARKER_RADIUS @ ''\"'' \<noteq> []" "PORT_MARKER_COLOR \<noteq> []"
  by (simp_all add: NL_def PORT_MARKER_COLOR_def PORT_MARKER_RADIUS_def str_int_1)

lemma table_plain:
  "list_all (\<lambda>(k, t). plain k \<and> plain (comment t) \<and> plain (outer_path t) \<and> plain (inner_path t))
     TILE_DEFINITIONS"
  by code_simp

lemma tile_plain:
  assumes "(k, t) \<in> set TILE_DEFINITIONS"
  shows "plain k" and "plain (comment t)" and "plain (outer_path t)" and "plain (inner_path t)"
  using table_plain assms by (auto simp: list_all_iff)

lemma marker_ids_plain: "plain ''start''" "plain ''goal''"
  by (simp_all add: plain_def NL_def)

lemma count_zero_facts:
  "count_sub p s = 0 \<Longrightarrow> attr_values p s = []"
  "count_sub p s = 0 \<Longrightarrow> quoted_after p s"
  by (simp_all add: attr_values_none quoted_after_none)

lemma road_svg_lines:
  assumes "plain i" and "plain (comment t)" and "plain (outer_path t)" and "plain (inner_path t)"
  shows "count_sub ''<line '' (generate_road_svg i t) = 10"
  using assms
  by (simp add: road_svg_count NL_def header_counts grid_counts road_group_counts
      port_counts footer_counts)

lemma road_svg_paths_count:
  assumes "plain i" and "plain (comment t)" and "plain (outer_path t)" and "plain (inner_path t)"
  shows "count_sub ''<path '' (generate_road_svg i t) = 2"
  using assms
  by (simp add: road_svg_count NL_def header_counts grid_counts road_group_counts
      port_counts footer_counts)

lemma road_svg_circles:
  assumes "plain i" and "plain (comment t)" and "plain (outer_path t)" and "plain (inner_path t)"
  shows "count_sub ''<circle '' (generate_road_svg i t) = 12"
  using assms
  by (simp add: road_svg_count NL_def header_counts grid_counts road_group_counts
      port_counts footer_counts)

lemma road_svg_path_values:
  assumes "plain i" and "plain (comment t)" and "plain (outer_path t)" and "plain (inner_path t)"
  shows "attr_values ''<path d=\"'' (generate_road_svg i t) = [outer_path t, inner_path t]"
proof -
  have q: "list_all (quoted_after ''<path d=\"'')
      [SVG_HEADER i TILE_SIZE, GRID_LINES, [], road_group t, [], PORT_MARKERS, SVG_FOOTER, []]"
    using assms
    by (simp add: count_zero_facts header_counts grid_counts port_counts footer_counts
        road_group_paths)
  show ?thesis
    unfolding generate_road_svg_def
    using assms
    by (subst attr_values_join[OF needle_facts(5) _ q])
       (simp_all add: count_zero_facts header_counts grid_counts port_counts
          footer_counts road_group_paths)
qed

lemma road_svg_id:
  assumes "plain i" and "plain (comment t)" and "plain (outer_path t)" and "plain (inner_path t)"
  shows "attr_values ''<svg id=\"'' (generate_road_svg i t) = [i]"
proof -
  have q: "list_all (quoted_after ''<svg id=\"'')
      [SVG_HEADER i TILE_SIZE, GRID_LINES, [], road_group t, [], PORT_MARKERS, SVG_FOOTER, []]"
    using assms
    by (simp add: count_zero_facts header_id grid_counts port_counts footer_counts
        road_group_counts)
  show ?thesis
    unfolding generate_road_svg_def
    using assms
    by (subst attr_values_join[OF needle_facts(4) _ q])
       (simp_all add: count_zero_facts header_id grid_counts port_counts
          footer_counts road_group_counts)
qed

lemma marker_svg_id:
  assumes "plain i" and "count_sub ''<svg id=\"'' c = 0"
  shows "attr_values ''<svg id=\"'' (generate_marker_svg i c) = [i]"
proof -
  have q: "list_all (quoted_after ''<svg id=\"'')
      [SVG_HEADER i TILE_SIZE, GRID_LINES, [], c, SVG_FOOTER, []]"
    using assms
    by (simp add: count_zero_facts header_id grid_counts footer_counts)
  show ?thesis
    unfolding generate_marker_svg_def
    using assms
    by (subst attr_values_join[OF needle_facts(4) _ q])
       (simp_all add: count_zero_facts header_id grid_counts footer_counts)
qed

lemma documents_cases:
  assumes "(f, doc) \<in> set documents"
  obtains (road) k t where "(k, t) \<in> set TILE_DEFINITIONS" "f = k @ ''.svg''"
      "doc = generate_road_svg k t"
  | (start) "f = ''start.svg''" "doc = generate_marker_svg ''start'' START_MARKER"
  | (goal) "f = ''goal.svg''" "doc = generate_marker_svg ''goal'' GOAL_MARKER"
  using assms
  by (auto simp: documents_def road_documents_def marker_documents_def)

lemma document_id:
  assumes "(f, doc) \<in> set documents"
  shows "attr_values ''<svg id=\"'' doc = [stem f]"
  using assms
proof (cases rule: documents_cases)
  case (road k t)
  then show ?thesis by (simp add: stem_svg road_svg_id tile_plain)
next
  case start
  have "stem ''start.svg'' = ''start''" using stem_svg[of "''start''"] by simp
  then show ?thesis using start by (simp add: marker_svg_id marker_ids_plain start_counts)
next
  case goal
  have "stem ''goal.svg'' = ''goal''" using stem_svg[of "''goal''"] by simp
  then show ?thesis using goal by (simp add: marker_svg_id marker_ids_plain goal_counts)
qed

lemma document_grid_lines:
  assumes "(f, doc) \<in> set documents"
  shows "count_sub ''<line '' doc = 10"
  using assms
proof (cases rule: documents_cases)
  case (road k t)
  then show ?thesis by (simp add: road_svg_lines tile_plain)
next
  case start
  then show ?thesis
    by (simp add: marker_svg_count NL_def header_counts marker_ids_plain grid_counts
        start_counts footer_counts)
next
  case goal
  then show ?thesis
    by (simp add: marker_svg_count NL_def header_counts marker_ids_plain grid_counts
        goal_counts footer_counts)
qed

lemma document_header:
  assumes "(f, doc) \<in> set documents"
  shows "\<exists>rest. doc = SVG_HEADER (stem f) TILE_SIZE @ [NL] @ GRID_LINES @ [NL, NL] @ rest"
  using assms
proof (cases rule: documents_cases)
  case (road k t)
  then show ?thesis by (simp add: stem_svg road_svg_parts)
next
  case start
  have "stem ''start.svg'' = ''start''" using stem_svg[of "''start''"] by simp
  then show ?thesis using start by (simp add: marker_svg_parts)
next
  case goal
  have "stem ''goal.svg'' = ''goal''" using stem_svg[of "''goal''"] by simp
  then show ?thesis using goal by (simp add: marker_svg_parts)
qed

subsection \<open>The text of the fixed groups\<close>

lemma grid_lines_text:
  \<open>GRID_LINES = join [NL]
     ([''  <!-- Grid lines -->'', ''  <g stroke="#cccccc" stroke-width="0.5" fill="none">'']
      @ map (\<lambda>x. ''    <line x1="'' @ str_int x @ ''" y1="0" x2="'' @ str_int x @ ''" y2="40"/>'')
          [0, 10, 20, 30, 40]
      @ map (\<lambda>y. ''    <line x1="0" y1="'' @ str_int y @ ''" x2="40" y2="'' @ str_int y @ ''"/>'')
          [0, 10, 20, 30, 40]
      @ [''  </g>''])\<close>
  by code_simp

lemma port_markers_text:
  \<open>PORT_MARKERS = join [NL]
     ([''  <!-- Port markers -->'', ''  <g fill="#ff0000">'']
      @ map (\<lambda>(cx, cy). ''    <circle cx="'' @ str_int cx @ ''" cy="'' @ str_int cy @ ''" r="1"/>'')
          port_positions
      @ [''  </g>''])\<close>
  by code_simp

lemma port_positions_set:
  "set port_positions = ({10, 20, 30} \<times> {0, 40}) \<union> ({0, 40} \<times> {10, 20, 30})"
  by (auto simp: port_positions_def)

lemma port_positions_distinct: "distinct port_positions \<and> length port_positions = 12"
  by (simp add: port_positions_def)

lemma road_group_text:
  \<open>road_group tile = join [NL]
     [''  <!-- '' @ comment tile @ '' -->'',
      ''  <g stroke="#000000" stroke-width="1" fill="none">'',
      ''    <path d="'' @ outer_path tile @ ''"/>'',
      ''    <path d="'' @ inner_path tile @ ''"/>'',
      ''  </g>'']\<close>
  by (simp add: road_group_def ROAD_STROKE_def ROAD_STROKE_WIDTH_def str_int_1)

lemma lookup_sharp_12_12:
  "map_of TILE_DEFINITIONS ''sharp-12-12'' =
     Some \<lparr>comment = ''Sharp: Up(P12) -> Right(P12)'',
           outer_path = ''M 10 0 L 10 20 L 40 20'',
           inner_path = ''M 20 0 L 20 10 L 40 10''\<rparr>"
  by (simp add: TILE_DEFINITIONS_def)

lemma lookup_straight_v_12:
  "map_of TILE_DEFINITIONS ''straight-v-12'' =
     Some \<lparr>comment = ''Straight Vertical: Up(P12) -> Down(P23) (lane shift)'',
           outer_path = ''M 10 0 C 10 20, 20 20, 20 40'',
           inner_path = ''M 20 0 C 20 20, 30 20, 30 40''\<rparr>"
  by (simp add: TILE_DEFINITIONS_def)

subsection \<open>How a document starts and ends\<close>

lemma road_svg_end:
  "ends_with (generate_road_svg svg_id tile) (''</svg>'' @ [NL])"
  "last (generate_road_svg svg_id tile) = NL"
  "last (butlast (generate_road_svg svg_id tile)) = CHR ''>''"
proof -
  let ?A = "SVG_HEADER svg_id TILE_SIZE @ [NL] @ GRID_LINES @ [NL, NL] @ road_group tile
              @ [NL, NL] @ PORT_MARKERS @ [NL]"
  have r: "generate_road_svg svg_id tile = ?A @ (''</svg>'' @ [NL])"
    by (simp add: road_svg_parts SVG_FOOTER_def)
  show "ends_with (generate_road_svg svg_id tile) (''</svg>'' @ [NL])"
    unfolding r by (rule ends_with_append_self)
  show "last (generate_road_svg svg_id tile) = NL"
    unfolding r by simp
  show "last (butlast (generate_road_svg svg_id tile)) = CHR ''>''"
    unfolding r by (simp add: butlast_append)
qed

lemma marker_svg_end:
  "ends_with (generate_marker_svg svg_id marker_content) (''</svg>'' @ [NL])"
  "last (generate_marker_svg svg_id marker_content) = NL"
  "last (butlast (generate_marker_svg svg_id marker_content)) = CHR ''>''"
proof -
  let ?B = "SVG_HEADER svg_id TILE_SIZE @ [NL] @ GRID_LINES @ [NL, NL] @ marker_content @ [NL]"
  have m: "generate_marker_svg svg_id marker_content = ?B @ (''</svg>'' @ [NL])"
    by (simp add: marker_svg_parts SVG_FOOTER_def)
  show "ends_with (generate_marker_svg svg_id marker_content) (''</svg>'' @ [NL])"
    unfolding m by (rule ends_with_append_self)
  show "last (generate_marker_svg svg_id marker_content) = NL"
    unfolding m by simp
  show "last (butlast (generate_marker_svg svg_id marker_content)) = CHR ''>''"
    unfolding m by (simp add: butlast_append)
qed

lemma document_end:
  assumes "(f, doc) \<in> set documents"
  shows "ends_with doc (''</svg>'' @ [NL]) \<and> last doc = NL \<and> last (butlast doc) = CHR ''>''"
  using assms
proof (cases rule: documents_cases)
  case (road k t)
  then show ?thesis using road_svg_end[of k t] by simp
next
  case start
  then show ?thesis using marker_svg_end[of "''start''" START_MARKER] by simp
next
  case goal
  then show ?thesis using marker_svg_end[of "''goal''" GOAL_MARKER] by simp
qed

lemma document_start:
  assumes "(f, doc) \<in> set documents"
  shows \<open>starts_with doc
      (''<?xml version="1.0" encoding="UTF-8"?>'' @ [NL] @ ''<svg id="'' @ stem f
        @ ''" xmlns="http://www.w3.org/2000/svg" width="40" height="40" viewBox="0 0 40 40">''
        @ [NL] @ GRID_LINES)\<close>
proof -
  from document_header[OF assms] obtain rest where
    "doc = SVG_HEADER (stem f) TILE_SIZE @ [NL] @ GRID_LINES @ [NL, NL] @ rest"
    by blast
  then have "doc =
      (''<?xml version=\"1.0\" encoding=\"UTF-8\"?>'' @ [NL] @ ''<svg id=\"'' @ stem f
        @ ''\" xmlns=\"http://www.w3.org/2000/svg\" width=\"40\" height=\"40\" viewBox=\"0 0 40 40\">''
        @ [NL] @ GRID_LINES) @ ([NL, NL] @ rest)"
    by (simp add: SVG_HEADER_def TILE_SIZE_def str_int_40)
  then show ?thesis using starts_with_append_self by metis
qed

lemma documents_eq:
  "documents =
     map (\<lambda>(tile_id, tile). (tile_id @ ''.svg'', generate_road_svg tile_id tile)) TILE_DEFINITIONS
     @ [(''start.svg'', generate_marker_svg ''start'' START_MARKER),
        (''goal.svg'', generate_marker_svg ''goal'' GOAL_MARKER)]"
  by (simp add: documents_def road_documents_def marker_documents_def)

lemma main_holds_documents:
  assumes "main d w0 = Inr w"
  shows "list_all (\<lambda>(f, doc). files w f = Some doc) documents"
  using main_file_lookup[OF assms] by (auto simp: list_all_iff)

lemma documents_are_svg:
  \<open>list_all (\<lambda>(f, doc).
      starts_with doc
        (''<?xml version="1.0" encoding="UTF-8"?>'' @ [NL] @ ''<svg id="'' @ stem f
          @ ''" xmlns="http://www.w3.org/2000/svg" width="40" height="40" viewBox="0 0 40 40">''
          @ [NL] @ GRID_LINES) \<and>
      attr_values ''<svg id="'' doc = [stem f] \<and>
      ends_with doc (''</svg>'' @ [NL])) documents\<close>
  using document_start document_id document_end by (auto simp: list_all_iff)

section \<open>The claims of the specification\<close>

text \<open>
  C1. When the operating system refuses nothing, a run of \<open>main\<close> succeeds and writes
  exactly 26 files to the output directory: \<^verbatim>\<open><id>.svg\<close> for each of the 24 distinct keys
  of \<open>TILE_DEFINITIONS\<close>, then \<^verbatim>\<open>start.svg\<close> and \<^verbatim>\<open>goal.svg\<close>. Each file holds the
  document generated for it: the text \<open>generate_road_svg\<close> returns for that key and its
  tile, or the text \<open>generate_marker_svg\<close> returns for the marker. Each of these 26 texts is
  an SVG document: it starts with the \<^verbatim>\<open><?xml ...?>\<close> declaration, the \<^verbatim>\<open>svg\<close> tag with
  the file's stem as \<^verbatim>\<open>id\<close> and the grid-lines group, and it ends with the closing
  \<^verbatim>\<open></svg>\<close> tag. The 26 names are distinct, every other file of the directory is left as
  it was, the run prints one \<^verbatim>\<open>Generated:\<close> line per file, 26 in all, and the count it
  reports at the end is 26.
\<close>

theorem main_writes_26_files:
  assumes "can_mkdir w0" and "list_all (can_write w0) file_names"
  shows "\<exists>w. main output_dir w0 = Inr w \<and>
     dom (files w) = dom (files w0) \<union> set file_names \<and>
     files w |` (- set file_names) = files w0 |` (- set file_names) \<and>
     filter (\<lambda>l. starts_with l ''  Generated: '') (drop (length (stdout w0)) (stdout w))
       = map (\<lambda>f. ''  Generated: '' @ f) file_names \<and>
     ''Generation complete! 26 SVG files created.'' \<in> set (drop (length (stdout w0)) (stdout w)) \<and>
     file_names = map (\<lambda>(tile_id, tile). tile_id @ ''.svg'') TILE_DEFINITIONS
                    @ [''start.svg'', ''goal.svg''] \<and>
     length TILE_DEFINITIONS = 24 \<and> distinct (map fst TILE_DEFINITIONS) \<and>
     length file_names = 26 \<and> distinct file_names \<and> card (set file_names) = 26 \<and>
     list_all (\<lambda>(f, doc). files w f = Some doc) documents \<and>
     length documents = 26 \<and> map fst documents = file_names \<and>
     documents =
       map (\<lambda>(tile_id, tile). (tile_id @ ''.svg'', generate_road_svg tile_id tile)) TILE_DEFINITIONS
       @ [(''start.svg'', generate_marker_svg ''start'' START_MARKER),
          (''goal.svg'', generate_marker_svg ''goal'' GOAL_MARKER)] \<and>
     list_all (\<lambda>(f, doc).
        starts_with doc
          (''<?xml version=\"1.0\" encoding=\"UTF-8\"?>'' @ [NL] @ ''<svg id=\"'' @ stem f
            @ ''\" xmlns=\"http://www.w3.org/2000/svg\" width=\"40\" height=\"40\" viewBox=\"0 0 40 40\">''
            @ [NL] @ GRID_LINES) \<and>
        attr_values ''<svg id=\"'' doc = [stem f] \<and>
        ends_with doc (''</svg>'' @ [NL])) documents"
proof -
  from assms obtain w where run: "main output_dir w0 = Inr w"
    using main_ok by blast
  note w = main_Inr[OF run]
  note held = main_holds_documents[OF run]
  have nd: "length documents = 26" and fd: "map fst documents = file_names"
    using length_file_names by (simp_all add: file_names_def)
  have fs: "files w = files w0 ++ map_of (rev documents)"
    unfolding w by simp
  have d: "dom (files w) = dom (files w0) \<union> set file_names"
    unfolding fs by (auto simp: file_names_def dom_map_of_conv_image_fst)
  have r: "files w |` (- set file_names) = files w0 |` (- set file_names)"
  proof
    fix x
    show "(files w |` (- set file_names)) x = (files w0 |` (- set file_names)) x"
    proof (cases "x \<in> set file_names")
      case True
      then show ?thesis by (simp add: restrict_map_def)
    next
      case False
      then have "x \<notin> dom (map_of (rev documents))"
        by (simp add: file_names_def dom_map_of_conv_image_fst)
      then show ?thesis
        unfolding fs by (simp add: restrict_map_def map_add_dom_app_simps)
    qed
  qed
  have out: "drop (length (stdout w0)) (stdout w) =
              [replicate 60 CHR ''='', ''Road Tile SVG Generator'', replicate 60 CHR ''='',
               ''Output directory: '' @ output_dir, [], ''Generating road tiles...'']
            @ map (\<lambda>(f, c). ''  Generated: '' @ f) road_documents
            @ [NL # ''Generating marker tiles...'']
            @ map (\<lambda>(f, c). ''  Generated: '' @ f) marker_documents
            @ [[], replicate 60 CHR ''='', ''Generation complete! 26 SVG files created.'',
               replicate 60 CHR ''='', [], ''Generated files:'',
               ''  Curve (Up->Right):     curve-12-12, curve-12-23, curve-23-12, curve-23-23'',
               ''  Curve (Up->Left):      curve-ul-12-12, curve-ul-12-23, curve-ul-23-12, curve-ul-23-23'',
               ''  Sharp (Up->Right):     sharp-12-12, sharp-12-23, sharp-23-12, sharp-23-23'',
               ''  Sharp (Up->Left):      sharp-ul-12-12, sharp-ul-12-23, sharp-ul-23-12, sharp-ul-23-23'',
               ''  Straight (Vertical):   straight-v-11, straight-v-12, straight-v-21, straight-v-22'',
               ''  Straight (Horizontal): straight-h-44, straight-h-48, straight-h-84, straight-h-88'',
               ''  Markers:               start, goal'']"
    unfolding w by simp
  have names: "map (\<lambda>f. ''  Generated: '' @ f) file_names =
       map (\<lambda>(f, c). ''  Generated: '' @ f) road_documents
       @ map (\<lambda>(f, c). ''  Generated: '' @ f) marker_documents"
    by (simp add: file_names_def documents_def case_prod_unfold)
  have rep: "\<not> starts_with (replicate 60 CHR ''='') ''  Generated: ''"
    by code_simp
  have log: "filter (\<lambda>l. starts_with l ''  Generated: '') (drop (length (stdout w0)) (stdout w))
       = map (\<lambda>f. ''  Generated: '' @ f) file_names"
    unfolding out names filter_append filter_generated
    by (simp add: rep NL_def)
  have fin: "''Generation complete! 26 SVG files created.'' \<in> set (drop (length (stdout w0)) (stdout w))"
    unfolding out by simp
  have c: "card (set file_names) = 26"
    using distinct_card[OF distinct_file_names] by (simp add: length_file_names)
  from run d r log fin file_names_eq length_TILE_DEFINITIONS distinct_tile_ids
    length_file_names distinct_file_names c held nd fd documents_eq documents_are_svg
  show ?thesis by blast
qed

text \<open>The run from an empty directory, in a world that refuses nothing.\<close>

theorem main_writes_26_files_witness:
  "can_mkdir fresh_world \<and> list_all (can_write fresh_world) file_names \<and>
   (\<exists>w. main ''assets'' fresh_world = Inr w \<and> dom (files w) = set file_names \<and>
     length file_names = 26 \<and> distinct file_names \<and>
     list_all (\<lambda>(f, doc). files w f = Some doc) documents \<and>
     files w ''goal.svg'' = Some (generate_marker_svg ''goal'' GOAL_MARKER))"
proof -
  have h1: "can_mkdir fresh_world" and h2: "list_all (can_write fresh_world) file_names"
    using fresh_world_ok by simp_all
  have e: "dom (files fresh_world) = {}" by (simp add: fresh_world_def)
  have g: "(''goal.svg'', generate_marker_svg ''goal'' GOAL_MARKER) \<in> set documents"
    by (simp add: documents_def marker_documents_def)
  from main_writes_26_files[OF h1 h2, of "''assets''"] obtain w where
    r: "main ''assets'' fresh_world = Inr w"
    and d: "dom (files w) = dom (files fresh_world) \<union> set file_names"
    and n: "length file_names = 26" "distinct file_names"
    and a: "list_all (\<lambda>(f, doc). files w f = Some doc) documents"
    by blast
  from a g have "files w ''goal.svg'' = Some (generate_marker_svg ''goal'' GOAL_MARKER)"
    by (auto simp: list_all_iff)
  with r d n a h1 h2 show ?thesis unfolding e by auto
qed

text \<open>
  C2, as amended. Every generated document (road tile or marker) has its grid-lines group
  right after the header, and the group holds 10 line elements, not 11: 5 vertical ones at
  x = 0, 10, 20, 30, 40 and 5 horizontal ones at y = 0, 10, 20, 30, 40, the outermost of
  which are the tile boundary. The stroke \<^verbatim>\<open>#cccccc\<close> and the stroke width 0.5 are
  attributes of the enclosing group. The document has no other line element.
\<close>

theorem grid_group_has_ten_lines:
  assumes "(f, doc) \<in> set documents"
  shows \<open>count_sub ''<line '' doc = 10 \<and> count_sub ''<line '' GRID_LINES = 10 \<and>
    (\<exists>rest. doc = SVG_HEADER (stem f) TILE_SIZE @ [NL] @ GRID_LINES @ [NL, NL] @ rest) \<and>
    GRID_LINES = join [NL]
     ([''  <!-- Grid lines -->'', ''  <g stroke="#cccccc" stroke-width="0.5" fill="none">'']
      @ map (\<lambda>x. ''    <line x1="'' @ str_int x @ ''" y1="0" x2="'' @ str_int x @ ''" y2="40"/>'')
          [0, 10, 20, 30, 40]
      @ map (\<lambda>y. ''    <line x1="0" y1="'' @ str_int y @ ''" x2="40" y2="'' @ str_int y @ ''"/>'')
          [0, 10, 20, 30, 40]
      @ [''  </g>''])\<close>
  using document_grid_lines[OF assms] document_header[OF assms] grid_counts(1) grid_lines_text
  by blast

theorem grid_group_has_ten_lines_witness:
  "(''start.svg'', generate_marker_svg ''start'' START_MARKER) \<in> set documents \<and>
   count_sub ''<line '' (generate_marker_svg ''start'' START_MARKER) = 10"
proof -
  have m: "(''start.svg'', generate_marker_svg ''start'' START_MARKER) \<in> set documents"
    by (simp add: documents_def marker_documents_def)
  from grid_group_has_ten_lines[OF m] m show ?thesis by blast
qed

text \<open>The claim as written fails on the start marker's document: it has 10 line
  elements, so not 11.\<close>

theorem grid_group_eleven_lines_counterexample:
  "(''start.svg'', generate_marker_svg ''start'' START_MARKER) \<in> set documents \<and>
   count_sub ''<line '' (generate_marker_svg ''start'' START_MARKER) \<noteq> 11"
proof -
  have m: "(''start.svg'', generate_marker_svg ''start'' START_MARKER) \<in> set documents"
    by (simp add: documents_def marker_documents_def)
  have "count_sub ''<line '' (generate_marker_svg ''start'' START_MARKER) = 10"
    by (simp add: marker_svg_count NL_def header_counts marker_ids_plain grid_counts
        start_counts footer_counts)
  with m show ?thesis by simp
qed

text \<open>
  C3. For each of the 24 entries of the tile table, the document made by
  \<open>generate_road_svg\<close> has exactly two path elements, both inside the road group, whose
  \<^verbatim>\<open>d\<close> attributes are the tile's outer and inner path; the group carries stroke
  \<^verbatim>\<open>#000000\<close>, stroke width 1 and fill \<^verbatim>\<open>none\<close>. The document has exactly 12 circle
  elements, those of the port-marker group, which carries fill \<^verbatim>\<open>#ff0000\<close>; each circle
  has radius 1, and their centres are the 12 points at which the grid lines 10, 20 and 30
  meet the four edges of the tile.
\<close>

theorem road_tile_paths_and_port_markers:
  assumes "(tile_id, tile) \<in> set TILE_DEFINITIONS"
  shows \<open>count_sub ''<path '' (generate_road_svg tile_id tile) = 2 \<and>
    count_sub ''<path '' (road_group tile) = 2 \<and>
    attr_values ''<path d="'' (generate_road_svg tile_id tile) = [outer_path tile, inner_path tile] \<and>
    road_group tile = join [NL]
     [''  <!-- '' @ comment tile @ '' -->'',
      ''  <g stroke="#000000" stroke-width="1" fill="none">'',
      ''    <path d="'' @ outer_path tile @ ''"/>'',
      ''    <path d="'' @ inner_path tile @ ''"/>'',
      ''  </g>''] \<and>
    count_sub ''<circle '' (generate_road_svg tile_id tile) = 12 \<and>
    count_sub ''<circle '' PORT_MARKERS = 12 \<and>
    PORT_MARKERS = join [NL]
     ([''  <!-- Port markers -->'', ''  <g fill="#ff0000">'']
      @ map (\<lambda>(cx, cy). ''    <circle cx="'' @ str_int cx @ ''" cy="'' @ str_int cy @ ''" r="1"/>'')
          port_positions
      @ [''  </g>'']) \<and>
    set port_positions = ({10, 20, 30} \<times> {0, 40}) \<union> ({0, 40} \<times> {10, 20, 30}) \<and>
    distinct port_positions \<and> length port_positions = 12 \<and>
    generate_road_svg tile_id tile =
      SVG_HEADER tile_id TILE_SIZE @ [NL] @ GRID_LINES @ [NL, NL] @ road_group tile @ [NL, NL]
        @ PORT_MARKERS @ [NL] @ SVG_FOOTER @ [NL]\<close>
proof -
  note pl = tile_plain[OF assms]
  have "count_sub ''<path '' (generate_road_svg tile_id tile) = 2"
    using pl by (rule road_svg_paths_count)
  moreover have "count_sub ''<path '' (road_group tile) = 2"
    using pl(2-4) by (rule road_group_counts(2))
  moreover have "attr_values ''<path d=\"'' (generate_road_svg tile_id tile)
      = [outer_path tile, inner_path tile]"
    using pl by (rule road_svg_path_values)
  moreover have "count_sub ''<circle '' (generate_road_svg tile_id tile) = 12"
    using pl by (rule road_svg_circles)
  ultimately show ?thesis
    using road_group_text[of tile] port_counts(3) port_markers_text port_positions_set
      port_positions_distinct road_svg_parts[of tile_id tile]
    by blast
qed

theorem road_tile_paths_and_port_markers_witness:
  \<open>(''curve-12-12'',
     \<lparr>comment = ''Curve: Up(P12) -> Right(P12)'',
      outer_path = ''M 10 0 L 10 10 C 10 15, 15 20, 20 20 L 40 20'',
      inner_path = ''M 20 0 L 20 5 C 20 7.5, 22.5 10, 25 10 L 40 10''\<rparr>) \<in> set TILE_DEFINITIONS \<and>
   count_sub ''<path '' (generate_road_svg ''curve-12-12''
     \<lparr>comment = ''Curve: Up(P12) -> Right(P12)'',
      outer_path = ''M 10 0 L 10 10 C 10 15, 15 20, 20 20 L 40 20'',
      inner_path = ''M 20 0 L 20 5 C 20 7.5, 22.5 10, 25 10 L 40 10''\<rparr>) = 2 \<and>
   count_sub ''<circle '' (generate_road_svg ''curve-12-12''
     \<lparr>comment = ''Curve: Up(P12) -> Right(P12)'',
      outer_path = ''M 10 0 L 10 10 C 10 15, 15 20, 20 20 L 40 20'',
      inner_path = ''M 20 0 L 20 5 C 20 7.5, 22.5 10, 25 10 L 40 10''\<rparr>) = 12\<close>
proof -
  let ?t = "\<lparr>comment = ''Curve: Up(P12) -> Right(P12)'',
      outer_path = ''M 10 0 L 10 10 C 10 15, 15 20, 20 20 L 40 20'',
      inner_path = ''M 20 0 L 20 5 C 20 7.5, 22.5 10, 25 10 L 40 10''\<rparr>"
  have m: "(''curve-12-12'', ?t) \<in> set TILE_DEFINITIONS"
    by (simp add: TILE_DEFINITIONS_def)
  from road_tile_paths_and_port_markers[OF m] m show ?thesis by blast
qed

text \<open>
  C4. Both marker documents use the header, grid and footer of the road tiles, with the
  marker content in place of the road group and nothing in place of the port-marker group.
  The grid-lines group is there (10 line elements), and no port marker is: every port
  marker is a circle of radius 1 in a group filled \<^verbatim>\<open>#ff0000\<close>, and neither document has
  a radius 1 or that colour anywhere. The start document has no circle at all; the three
  circles of the goal document are the goal symbol itself (radii 8, 4 and 1.5).
\<close>

theorem marker_documents_have_no_port_markers:
  \<open>generate_marker_svg svg_id marker_content =
     SVG_HEADER svg_id TILE_SIZE @ [NL] @ GRID_LINES @ [NL, NL] @ marker_content @ [NL]
       @ SVG_FOOTER @ [NL] \<and>
   generate_road_svg svg_id tile =
     SVG_HEADER svg_id TILE_SIZE @ [NL] @ GRID_LINES @ [NL, NL] @ road_group tile @ [NL, NL]
       @ PORT_MARKERS @ [NL] @ SVG_FOOTER @ [NL] \<and>
   count_sub ''<circle '' PORT_MARKERS = 12 \<and>
   count_sub (''r="'' @ str_int PORT_MARKER_RADIUS @ ''"'') PORT_MARKERS = 12 \<and>
   count_sub PORT_MARKER_COLOR PORT_MARKERS = 1 \<and>
   count_sub ''<line '' (generate_marker_svg ''start'' START_MARKER) = 10 \<and>
   count_sub ''<circle '' (generate_marker_svg ''start'' START_MARKER) = 0 \<and>
   count_sub (''r="'' @ str_int PORT_MARKER_RADIUS @ ''"'') (generate_marker_svg ''start'' START_MARKER) = 0 \<and>
   count_sub PORT_MARKER_COLOR (generate_marker_svg ''start'' START_MARKER) = 0 \<and>
   count_sub ''<line '' (generate_marker_svg ''goal'' GOAL_MARKER) = 10 \<and>
   count_sub ''<circle '' (generate_marker_svg ''goal'' GOAL_MARKER) = 3 \<and>
   count_sub ''<circle '' GOAL_MARKER = 3 \<and>
   count_sub (''r="'' @ str_int PORT_MARKER_RADIUS @ ''"'') (generate_marker_svg ''goal'' GOAL_MARKER) = 0 \<and>
   count_sub PORT_MARKER_COLOR (generate_marker_svg ''goal'' GOAL_MARKER) = 0\<close>
proof -
  have s: "count_sub ''<line '' (generate_marker_svg ''start'' START_MARKER) = 10"
    "count_sub ''<circle '' (generate_marker_svg ''start'' START_MARKER) = 0"
    "count_sub ''<line '' (generate_marker_svg ''goal'' GOAL_MARKER) = 10"
    "count_sub ''<circle '' (generate_marker_svg ''goal'' GOAL_MARKER) = 3"
    by (simp_all add: marker_svg_count NL_def header_counts marker_ids_plain grid_counts
        start_counts goal_counts footer_counts)
  have r: "count_sub (''r=\"'' @ str_int PORT_MARKER_RADIUS @ ''\"'') (generate_marker_svg ''start'' START_MARKER) = 0"
    "count_sub (''r=\"'' @ str_int PORT_MARKER_RADIUS @ ''\"'') (generate_marker_svg ''goal'' GOAL_MARKER) = 0"
    by (simp_all only: marker_svg_count[OF needle_facts(6) needle_facts(8)] marker_header_counts
        grid_counts start_counts goal_counts footer_counts add_0)
  have c: "count_sub PORT_MARKER_COLOR (generate_marker_svg ''start'' START_MARKER) = 0"
    "count_sub PORT_MARKER_COLOR (generate_marker_svg ''goal'' GOAL_MARKER) = 0"
    by (simp_all only: marker_svg_count[OF needle_facts(7) needle_facts(9)] marker_header_counts
        grid_counts start_counts goal_counts footer_counts add_0)
  from s r c show ?thesis
    using marker_svg_parts[of svg_id marker_content] road_svg_parts[of svg_id tile]
      port_counts(3,6,7) goal_counts(2)
    by blast
qed

text \<open>
  C5. The table has an entry \<^verbatim>\<open>sharp-12-12\<close>, and rendering it gives a document whose
  path elements, the two of its road group, have the \<^verbatim>\<open>d\<close> attributes
  \<^verbatim>\<open>M 10 0 L 10 20 L 40 20\<close> (outer) and \<^verbatim>\<open>M 20 0 L 20 10 L 40 10\<close> (inner), in this order.
\<close>

theorem sharp_12_12_paths:
  \<open>map_option (\<lambda>tile. attr_values ''<path d="'' (generate_road_svg ''sharp-12-12'' tile))
       (map_of TILE_DEFINITIONS ''sharp-12-12'')
     = Some [''M 10 0 L 10 20 L 40 20'', ''M 20 0 L 20 10 L 40 10''] \<and>
   map_option (\<lambda>tile. attr_values ''<path d="'' (road_group tile))
       (map_of TILE_DEFINITIONS ''sharp-12-12'')
     = Some [''M 10 0 L 10 20 L 40 20'', ''M 20 0 L 20 10 L 40 10''] \<and>
   map_option (\<lambda>tile. (outer_path tile, inner_path tile)) (map_of TILE_DEFINITIONS ''sharp-12-12'')
     = Some (''M 10 0 L 10 20 L 40 20'', ''M 20 0 L 20 10 L 40 10'')\<close>
proof -
  let ?t = "\<lparr>comment = ''Sharp: Up(P12) -> Right(P12)'',
           outer_path = ''M 10 0 L 10 20 L 40 20'',
           inner_path = ''M 20 0 L 20 10 L 40 10''\<rparr>"
  have "(''sharp-12-12'', ?t) \<in> set TILE_DEFINITIONS"
    using lookup_sharp_12_12 by (rule map_of_SomeD)
  note pl = tile_plain[OF this]
  have "attr_values ''<path d=\"'' (generate_road_svg ''sharp-12-12'' ?t)
      = [outer_path ?t, inner_path ?t]"
    using pl by (rule road_svg_path_values)
  moreover have "attr_values ''<path d=\"'' (road_group ?t) = [outer_path ?t, inner_path ?t]"
    using pl(2-4) by (rule road_group_paths(1))
  ultimately show ?thesis
    unfolding lookup_sharp_12_12 by simp
qed

text \<open>
  C6. The table has an entry \<^verbatim>\<open>straight-v-12\<close>, and rendering it gives a document whose
  path elements, the two of its road group, have the \<^verbatim>\<open>d\<close> attributes
  \<^verbatim>\<open>M 10 0 C 10 20, 20 20, 20 40\<close> (outer) and \<^verbatim>\<open>M 20 0 C 20 20, 30 20, 30 40\<close> (inner), in
  this order.
\<close>

theorem straight_v_12_paths:
  \<open>map_option (\<lambda>tile. attr_values ''<path d="'' (generate_road_svg ''straight-v-12'' tile))
       (map_of TILE_DEFINITIONS ''straight-v-12'')
     = Some [''M 10 0 C 10 20, 20 20, 20 40'', ''M 20 0 C 20 20, 30 20, 30 40''] \<and>
   map_option (\<lambda>tile. attr_values ''<path d="'' (road_group tile))
       (map_of TILE_DEFINITIONS ''straight-v-12'')
     = Some [''M 10 0 C 10 20, 20 20, 20 40'', ''M 20 0 C 20 20, 30 20, 30 40''] \<and>
   map_option (\<lambda>tile. (outer_path tile, inner_path tile)) (map_of TILE_DEFINITIONS ''straight-v-12'')
     = Some (''M 10 0 C 10 20, 20 20, 20 40'', ''M 20 0 C 20 20, 30 20, 30 40'')\<close>
proof -
  let ?t = "\<lparr>comment = ''Straight Vertical: Up(P12) -> Down(P23) (lane shift)'',
           outer_path = ''M 10 0 C 10 20, 20 20, 20 40'',
           inner_path = ''M 20 0 C 20 20, 30 20, 30 40''\<rparr>"
  have "(''straight-v-12'', ?t) \<in> set TILE_DEFINITIONS"
    using lookup_straight_v_12 by (rule map_of_SomeD)
  note pl = tile_plain[OF this]
  have "attr_values ''<path d=\"'' (generate_road_svg ''straight-v-12'' ?t)
      = [outer_path ?t, inner_path ?t]"
    using pl by (rule road_svg_path_values)
  moreover have "attr_values ''<path d=\"'' (road_group ?t) = [outer_path ?t, inner_path ?t]"
    using pl(2-4) by (rule road_group_paths(1))
  ultimately show ?thesis
    unfolding lookup_straight_v_12 by simp
qed

text \<open>
  C7. Both generators are functions of their two arguments alone: they read nothing but
  constants, which is why they are HOL functions of exactly these arguments. Hence the
  files do not depend on the run: two runs that start from any two worlds that refuse
  nothing, with any output paths, and a second run on top of the first, all leave the same
  text in each of the 26 files, the one document of that name.
\<close>

theorem generation_is_deterministic:
  assumes "can_mkdir w1" and "list_all (can_write w1) file_names"
    and "can_mkdir w2" and "list_all (can_write w2) file_names"
    and "f \<in> set file_names"
  shows "\<exists>w1' w2' w1'' doc.
     main dir1 w1 = Inr w1' \<and> main dir2 w2 = Inr w2' \<and> main dir1 w1' = Inr w1'' \<and>
     files w1' f = Some doc \<and> files w2' f = Some doc \<and> files w1'' f = Some doc \<and>
     (f, doc) \<in> set documents"
proof -
  from assms(1,2) obtain w1' where r1: "main dir1 w1 = Inr w1'"
    using main_ok by blast
  from assms(3,4) obtain w2' where r2: "main dir2 w2 = Inr w2'"
    using main_ok by blast
  have "can_mkdir w1' = can_mkdir w1" and "can_write w1' = can_write w1"
    unfolding main_Inr[OF r1] by simp_all
  with assms(1,2) have "can_mkdir w1'" and "list_all (can_write w1') file_names"
    by simp_all
  then obtain w1'' where r3: "main dir1 w1' = Inr w1''"
    using main_ok by blast
  from assms(5) obtain doc where doc: "(f, doc) \<in> set documents"
    using file_names_document by blast
  have "files w1' f = Some doc" using r1 doc by (rule main_file_lookup)
  moreover have "files w2' f = Some doc" using r2 doc by (rule main_file_lookup)
  moreover have "files w1'' f = Some doc" using r3 doc by (rule main_file_lookup)
  ultimately show ?thesis using r1 r2 r3 doc by blast
qed

theorem generation_is_deterministic_witness:
  "can_mkdir fresh_world \<and> list_all (can_write fresh_world) file_names \<and>
   ''goal.svg'' \<in> set file_names \<and>
   (\<exists>w1' w2' doc. main ''a/assets'' fresh_world = Inr w1' \<and>
      main ''b/assets'' (fresh_world\<lparr>stdout := [''earlier output'']\<rparr>) = Inr w2' \<and>
      files w1' ''goal.svg'' = Some doc \<and> files w2' ''goal.svg'' = Some doc)"
proof -
  let ?w2 = "fresh_world\<lparr>stdout := [''earlier output'']\<rparr>"
  have h1: "can_mkdir fresh_world" and h2: "list_all (can_write fresh_world) file_names"
    using fresh_world_ok by simp_all
  have h3: "can_mkdir ?w2" and h4: "list_all (can_write ?w2) file_names"
    by (simp_all add: fresh_world_def list_all_iff)
  have h5: "''goal.svg'' \<in> set file_names"
    unfolding file_names_list by simp
  from generation_is_deterministic[OF h1 h2 h3 h4 h5, of "''a/assets''" "''b/assets''"] h1 h2 h5
  show ?thesis by blast
qed

text \<open>
  C8. After a run that nothing refuses, each of the 26 files holds a document that starts
  with the \<^verbatim>\<open><?xml ...?>\<close> declaration and the opening tag of the root \<^verbatim>\<open>svg\<close> element, whose
  \<^verbatim>\<open>id\<close> attribute is the file name without \<^verbatim>\<open>.svg\<close>; it is the only \<^verbatim>\<open>svg\<close> element
  with an \<^verbatim>\<open>id\<close> in the document.
\<close>

theorem root_id_is_file_stem:
  assumes "can_mkdir w0" and "list_all (can_write w0) file_names" and "f \<in> set file_names"
  shows \<open>\<exists>w doc. main output_dir w0 = Inr w \<and> files w f = Some doc \<and>
    attr_values ''<svg id="'' doc = [stem f] \<and> f = stem f @ ''.svg'' \<and>
    starts_with doc
      (''<?xml version="1.0" encoding="UTF-8"?>'' @ [NL] @ ''<svg id="'' @ stem f @ ''" '')\<close>
proof -
  from assms(1,2) obtain w where run: "main output_dir w0 = Inr w"
    using main_ok by blast
  from assms(3) obtain doc where doc: "(f, doc) \<in> set documents"
    using file_names_document by blast
  have fl: "files w f = Some doc" using run doc by (rule main_file_lookup)
  have id: "attr_values ''<svg id=\"'' doc = [stem f]" using doc by (rule document_id)
  have name: "f = stem f @ ''.svg''"
    using doc by (cases rule: documents_cases) (simp_all add: stem_svg stem_def ends_with_def)
  from document_header[OF doc] obtain rest where
    "doc = SVG_HEADER (stem f) TILE_SIZE @ [NL] @ GRID_LINES @ [NL, NL] @ rest"
    by blast
  then have "doc = (''<?xml version=\"1.0\" encoding=\"UTF-8\"?>'' @ [NL] @ ''<svg id=\"'' @ stem f @ ''\" '')
      @ (''xmlns=\"http://www.w3.org/2000/svg\" width=\"40\" height=\"40\" viewBox=\"0 0 40 40\">''
          @ [NL] @ GRID_LINES @ [NL, NL] @ rest)"
    by (simp add: SVG_HEADER_def TILE_SIZE_def str_int_40)
  then have start: "starts_with doc
      (''<?xml version=\"1.0\" encoding=\"UTF-8\"?>'' @ [NL] @ ''<svg id=\"'' @ stem f @ ''\" '')"
    using starts_with_append_self by metis
  from run fl id name start show ?thesis by blast
qed

theorem root_id_is_file_stem_witness:
  \<open>can_mkdir fresh_world \<and> list_all (can_write fresh_world) file_names \<and>
   ''curve-ul-23-12.svg'' \<in> set file_names \<and> stem ''curve-ul-23-12.svg'' = ''curve-ul-23-12'' \<and>
   (\<exists>w doc. main ''assets'' fresh_world = Inr w \<and> files w ''curve-ul-23-12.svg'' = Some doc \<and>
      attr_values ''<svg id="'' doc = [''curve-ul-23-12''])\<close>
proof -
  have h1: "can_mkdir fresh_world" and h2: "list_all (can_write fresh_world) file_names"
    using fresh_world_ok by simp_all
  have h3: "''curve-ul-23-12.svg'' \<in> set file_names"
    unfolding file_names_list by simp
  have st: "stem ''curve-ul-23-12.svg'' = ''curve-ul-23-12''"
    using stem_svg[of "''curve-ul-23-12''"] by simp
  from root_id_is_file_stem[OF h1 h2 h3, of "''assets''"] h1 h2 h3 st show ?thesis
    by metis
qed

text \<open>
  C9. Every document returned by \<open>generate_road_svg\<close> or \<open>generate_marker_svg\<close>, for any
  identifier and any tile or marker content, ends with the closing tag \<^verbatim>\<open></svg>\<close> followed
  by one newline, which is its last character; the character before that newline is the
  \<^verbatim>\<open>>\<close> of the tag, so there is exactly one trailing newline. \<open>write_svg\<close> stores the
  text it is given as it is, so after a run of \<open>main\<close> that nothing refuses, each of the 26
  files holds its document and ends in \<^verbatim>\<open></svg>\<close> and exactly one newline.
\<close>

theorem documents_end_with_footer_newline:
  "ends_with (generate_road_svg svg_id tile) (''</svg>'' @ [NL]) \<and>
   ends_with (generate_marker_svg svg_id marker_content) (''</svg>'' @ [NL]) \<and>
   last (generate_road_svg svg_id tile) = NL \<and>
   last (butlast (generate_road_svg svg_id tile)) = CHR ''>'' \<and>
   last (generate_marker_svg svg_id marker_content) = NL \<and>
   last (butlast (generate_marker_svg svg_id marker_content)) = CHR ''>'' \<and>
   CHR ''>'' \<noteq> NL \<and>
   (can_write w filename \<longrightarrow>
      (\<exists>w'. write_svg filename content w = Inr w' \<and> files w' filename = Some content)) \<and>
   (can_mkdir w0 \<and> list_all (can_write w0) file_names \<and> f \<in> set file_names \<longrightarrow>
      (\<exists>w' doc. main output_dir w0 = Inr w' \<and> files w' f = Some doc \<and>
         (f, doc) \<in> set documents \<and>
         ends_with doc (''</svg>'' @ [NL]) \<and> last doc = NL \<and> last (butlast doc) = CHR ''>''))"
proof -
  have gen: "CHR ''>'' \<noteq> NL" by (simp add: NL_def)
  have wr: "can_write w filename \<longrightarrow>
      (\<exists>w'. write_svg filename content w = Inr w' \<and> files w' filename = Some content)"
    by (simp add: write_svg_def print_def)
  have run: "can_mkdir w0 \<and> list_all (can_write w0) file_names \<and> f \<in> set file_names \<longrightarrow>
      (\<exists>w' doc. main output_dir w0 = Inr w' \<and> files w' f = Some doc \<and>
         (f, doc) \<in> set documents \<and>
         ends_with doc (''</svg>'' @ [NL]) \<and> last doc = NL \<and> last (butlast doc) = CHR ''>'')"
  proof
    assume h: "can_mkdir w0 \<and> list_all (can_write w0) file_names \<and> f \<in> set file_names"
    then obtain w' where r: "main output_dir w0 = Inr w'"
      using main_ok by blast
    from h obtain doc where doc: "(f, doc) \<in> set documents"
      using file_names_document by blast
    have "files w' f = Some doc" using r doc by (rule main_file_lookup)
    with r doc document_end[OF doc]
    show "\<exists>w' doc. main output_dir w0 = Inr w' \<and> files w' f = Some doc \<and>
         (f, doc) \<in> set documents \<and>
         ends_with doc (''</svg>'' @ [NL]) \<and> last doc = NL \<and> last (butlast doc) = CHR ''>''"
      by blast
  qed
  from gen wr run road_svg_end[of svg_id tile] marker_svg_end[of svg_id marker_content]
  show ?thesis by blast
qed

theorem documents_end_with_footer_newline_witness:
  "can_write fresh_world ''start.svg'' \<and>
   can_mkdir fresh_world \<and> list_all (can_write fresh_world) file_names \<and>
   ''start.svg'' \<in> set file_names \<and>
   (\<exists>w' doc. main ''assets'' fresh_world = Inr w' \<and> files w' ''start.svg'' = Some doc \<and>
      ends_with doc (''</svg>'' @ [NL]) \<and> last doc = NL \<and> last (butlast doc) = CHR ''>'') \<and>
   (\<exists>w'. write_svg ''start.svg'' ''text'' fresh_world = Inr w' \<and>
      files w' ''start.svg'' = Some ''text'')"
proof -
  have h0: "can_write fresh_world ''start.svg''" by (simp add: fresh_world_def)
  have h1: "can_mkdir fresh_world" and h2: "list_all (can_write fresh_world) file_names"
    using fresh_world_ok by simp_all
  have h3: "''start.svg'' \<in> set file_names"
    unfolding file_names_list by simp
  note t = documents_end_with_footer_newline[of "''start''"
      "\<lparr>comment = ''c'', outer_path = ''M 0 0'', inner_path = ''M 1 1''\<rparr>" START_MARKER fresh_world
      "''start.svg''" "''text''" fresh_world "''start.svg''" "''assets''"]
  from t h0 have a: "\<exists>w'. write_svg ''start.svg'' ''text'' fresh_world = Inr w' \<and>
      files w' ''start.svg'' = Some ''text''"
    by blast
  from t h1 h2 h3 have b: "\<exists>w' doc. main ''assets'' fresh_world = Inr w' \<and>
      files w' ''start.svg'' = Some doc \<and> (''start.svg'', doc) \<in> set documents \<and>
      ends_with doc (''</svg>'' @ [NL]) \<and> last doc = NL \<and> last (butlast doc) = CHR ''>''"
    by blast
  from a b h0 h1 h2 h3 show ?thesis by blast
qed

text \<open>
  C10. For every identifier and tile, the road group made by \<open>generate_road_svg\<close> is the comment line
  with the tile's comment, then the opening tag of the group on the next line, then the
  path element of the outer path, then the one of the inner path, then the closing tag;
  the group stands between the grid lines and the port markers. When the tile's texts are
  plain (no \<^verbatim>\<open><\<close>, no double quote, no newline), as they all are in the table, the path
  elements of the document read in order are the outer path, then the inner path.
\<close>

theorem outer_path_before_inner_path:
  \<open>generate_road_svg svg_id tile =
      SVG_HEADER svg_id TILE_SIZE @ [NL] @ GRID_LINES @ [NL, NL]
        @ ''  <!-- '' @ comment tile @ '' -->'' @ [NL]
        @ ''  <g stroke="#000000" stroke-width="1" fill="none">'' @ [NL]
        @ ''    <path d="'' @ outer_path tile @ ''"/>'' @ [NL]
        @ ''    <path d="'' @ inner_path tile @ ''"/>'' @ [NL]
        @ ''  </g>'' @ [NL, NL] @ PORT_MARKERS @ [NL] @ SVG_FOOTER @ [NL] \<and>
    (plain svg_id \<and> plain (comment tile) \<and> plain (outer_path tile) \<and> plain (inner_path tile) \<longrightarrow>
     attr_values ''<path d="'' (generate_road_svg svg_id tile)
       = [outer_path tile, inner_path tile]) \<and>
    list_all (\<lambda>(k, t). plain k \<and> plain (comment t) \<and> plain (outer_path t) \<and> plain (inner_path t))
      TILE_DEFINITIONS\<close>
proof -
  have "generate_road_svg svg_id tile =
      SVG_HEADER svg_id TILE_SIZE @ [NL] @ GRID_LINES @ [NL, NL]
        @ ''  <!-- '' @ comment tile @ '' -->'' @ [NL]
        @ ''  <g stroke=\"#000000\" stroke-width=\"1\" fill=\"none\">'' @ [NL]
        @ ''    <path d=\"'' @ outer_path tile @ ''\"/>'' @ [NL]
        @ ''    <path d=\"'' @ inner_path tile @ ''\"/>'' @ [NL]
        @ ''  </g>'' @ [NL, NL] @ PORT_MARKERS @ [NL] @ SVG_FOOTER @ [NL]"
    unfolding road_svg_parts road_group_text by simp
  moreover have "plain svg_id \<and> plain (comment tile) \<and> plain (outer_path tile)
      \<and> plain (inner_path tile) \<longrightarrow>
     attr_values ''<path d=\"'' (generate_road_svg svg_id tile)
       = [outer_path tile, inner_path tile]"
    using road_svg_path_values by blast
  ultimately show ?thesis using table_plain by blast
qed

theorem outer_path_before_inner_path_witness:
  \<open>plain ''straight-h-48'' \<and> plain ''Straight Horizontal: Left(P12) -> Right(P23) (lane shift)'' \<and>
   plain ''M 0 10 C 20 10, 20 20, 40 20'' \<and> plain ''M 0 20 C 20 20, 20 30, 40 30'' \<and>
   attr_values ''<path d="'' (generate_road_svg ''straight-h-48''
     \<lparr>comment = ''Straight Horizontal: Left(P12) -> Right(P23) (lane shift)'',
      outer_path = ''M 0 10 C 20 10, 20 20, 40 20'',
      inner_path = ''M 0 20 C 20 20, 20 30, 40 30''\<rparr>)
   = [''M 0 10 C 20 10, 20 20, 40 20'', ''M 0 20 C 20 20, 20 30, 40 30'']\<close>
proof -
  let ?t = "\<lparr>comment = ''Straight Horizontal: Left(P12) -> Right(P23) (lane shift)'',
      outer_path = ''M 0 10 C 20 10, 20 20, 40 20'',
      inner_path = ''M 0 20 C 20 20, 20 30, 40 30''\<rparr>"
  have h1: "plain ''straight-h-48''"
    and h2: "plain ''Straight Horizontal: Left(P12) -> Right(P23) (lane shift)''"
    and h3: "plain ''M 0 10 C 20 10, 20 20, 40 20''"
    and h4: "plain ''M 0 20 C 20 20, 20 30, 40 30''"
    by (simp_all add: plain_def NL_def)
  have p2: "plain (comment ?t)" and p3: "plain (outer_path ?t)" and p4: "plain (inner_path ?t)"
    using h2 h3 h4 by simp_all
  note r = outer_path_before_inner_path[of "''straight-h-48''" ?t]
  have "attr_values ''<path d=\"'' (generate_road_svg ''straight-h-48'' ?t)
      = [outer_path ?t, inner_path ?t]"
    using r[THEN conjunct2, THEN conjunct1] h1 p2 p3 p4 by blast
  then have "attr_values ''<path d=\"'' (generate_road_svg ''straight-h-48'' ?t)
      = [''M 0 10 C 20 10, 20 20, 40 20'', ''M 0 20 C 20 20, 20 30, 40 30'']"
    by simp
  with h1 h2 h3 h4 show ?thesis by blast
qed

end
